theory Spec2Isabelle
  imports Complex_Main "HOL-Library.Word"
begin

unbundle bit_operations_syntax

section \<open>Go strings, runes and UTF-8\<close>

text \<open>
  A Go string is a sequence of bytes; a rune is an int32. The conversions
  \<^verbatim>\<open>[]rune(s)\<close>, \<^verbatim>\<open>string(runes)\<close> and \<^verbatim>\<open>WriteRune\<close> are the
  language's UTF-8 decoding and encoding (package unicode/utf8): an invalid byte decodes to
  U+FFFD and consumes one byte, an invalid rune encodes as U+FFFD.
\<close>

type_synonym byte = "8 word"
type_synonym rune = "32 word"

datatype error = NilFontFace | IndexOutOfRange | SliceBounds | NilDereference

definition RuneError :: rune where
  "RuneError = 0xFFFD"

definition encodeRune :: "rune \<Rightarrow> byte list" where
  "encodeRune r =
     (if r \<le> 0x7F then [ucast r]
      else if r \<le> 0x7FF then
        [0xC0 OR ucast (drop_bit 6 r), 0x80 OR (ucast r AND 0x3F)]
      else if 0x10FFFF < r \<or> (0xD800 \<le> r \<and> r \<le> 0xDFFF) then [0xEF, 0xBF, 0xBD]
      else if r \<le> 0xFFFF then
        [0xE0 OR ucast (drop_bit 12 r), 0x80 OR (ucast (drop_bit 6 r) AND 0x3F),
         0x80 OR (ucast r AND 0x3F)]
      else
        [0xF0 OR ucast (drop_bit 18 r), 0x80 OR (ucast (drop_bit 12 r) AND 0x3F),
         0x80 OR (ucast (drop_bit 6 r) AND 0x3F), 0x80 OR (ucast r AND 0x3F)])"

definition string_of_runes :: "rune list \<Rightarrow> byte list" where
  "string_of_runes rs = concat (map encodeRune rs)"

text \<open>The size and the range accepted for the second byte, from the first byte.\<close>

definition firstByte :: "byte \<Rightarrow> (nat \<times> byte \<times> byte) option" where
  "firstByte b =
     (if 0xC2 \<le> b \<and> b \<le> 0xDF then Some (2, 0x80, 0xBF)
      else if b = 0xE0 then Some (3, 0xA0, 0xBF)
      else if 0xE1 \<le> b \<and> b \<le> 0xEC then Some (3, 0x80, 0xBF)
      else if b = 0xED then Some (3, 0x80, 0x9F)
      else if 0xEE \<le> b \<and> b \<le> 0xEF then Some (3, 0x80, 0xBF)
      else if b = 0xF0 then Some (4, 0x90, 0xBF)
      else if 0xF1 \<le> b \<and> b \<le> 0xF3 then Some (4, 0x80, 0xBF)
      else if b = 0xF4 then Some (4, 0x80, 0x8F)
      else None)"

definition cont :: "byte \<Rightarrow> bool" where
  "cont b \<longleftrightarrow> 0x80 \<le> b \<and> b \<le> 0xBF"

text \<open>\<^verbatim>\<open>utf8.DecodeRuneInString\<close> on a nonempty string: the rune and its width.\<close>

definition decodeRune :: "byte \<Rightarrow> byte list \<Rightarrow> rune \<times> nat" where
  "decodeRune s0 s =
     (if s0 < 0x80 then (ucast s0, 1)
      else case firstByte s0 of
        None \<Rightarrow> (RuneError, 1)
      | Some (sz, lo, hi) \<Rightarrow>
          if length s + 1 < sz then (RuneError, 1)
          else let s1 = s ! 0 in
          if s1 < lo \<or> hi < s1 then (RuneError, 1)
          else if sz \<le> 2 then
            (push_bit 6 (ucast (s0 AND 0x1F)) OR ucast (s1 AND 0x3F), 2)
          else let s2 = s ! 1 in
          if \<not> cont s2 then (RuneError, 1)
          else if sz \<le> 3 then
            (push_bit 12 (ucast (s0 AND 0x0F)) OR push_bit 6 (ucast (s1 AND 0x3F))
               OR ucast (s2 AND 0x3F), 3)
          else let s3 = s ! 2 in
          if \<not> cont s3 then (RuneError, 1)
          else
            (push_bit 18 (ucast (s0 AND 0x07)) OR push_bit 12 (ucast (s1 AND 0x3F))
               OR push_bit 6 (ucast (s2 AND 0x3F)) OR ucast (s3 AND 0x3F), 4))"

text \<open>
  \<^verbatim>\<open>for i, r := range s\<close>: the byte offset and the rune of every decoding step;
  \<^verbatim>\<open>[]rune(s)\<close> keeps the runes.
\<close>

function rangeString :: "nat \<Rightarrow> byte list \<Rightarrow> (nat \<times> rune) list" where
  "rangeString off [] = []"
| "rangeString off (b # bs) =
     (case decodeRune b bs of (r, n) \<Rightarrow> (off, r) # rangeString (off + n) (drop (n - 1) bs))"
  by pat_completeness auto
termination
  by (relation "measure (\<lambda>(off, s). length s)") auto

definition runes_of :: "byte list \<Rightarrow> rune list" where
  "runes_of s = map snd (rangeString 0 s)"

definition runeCount :: "byte list \<Rightarrow> int" where
  "runeCount s = int (length (runes_of s))"

section \<open>The rich text model\<close>

datatype WritingMode = HorizontalTB | VerticalRL | VerticalLR
datatype TextOrientation = Natural | Upright
datatype VerticalAlign = Baseline | FontTop | FontMiddle | FontBottom

text \<open>A \<^verbatim>\<open>*FontFace\<close> is a pointer: an address, or \<open>None\<close> for nil.\<close>

type_synonym FontFacePtr = "nat option"

record Canvas =
  canvasId :: nat
  canvasW :: real
  canvasH :: real

record TextSpanObject =
  objCanvas :: Canvas
  objX :: real
  objY :: real
  objWidth :: real
  objHeight :: real
  objVAlign :: VerticalAlign

record RichText =
  Builder :: "byte list"
  locs :: "int list"
  faces :: "FontFacePtr list"
  mode :: WritingMode
  orient :: TextOrientation
  defaultFace :: FontFacePtr
  objects :: "TextSpanObject list"

definition Len :: "RichText \<Rightarrow> int" where
  "Len rt = int (length (Builder rt))"

definition NewRichText :: "FontFacePtr \<Rightarrow> error + RichText" where
  "NewRichText face =
     (if face = None then Inl NilFontFace
      else Inr \<lparr>Builder = [], locs = [0], faces = [face], mode = HorizontalTB,
                orient = Natural, defaultFace = face, objects = []\<rparr>)"

text \<open>
  \<^verbatim>\<open>rt.locs[:1]\<close> on an empty slice is out of range (no constructor leaves the
  lists empty, so the capacity that Go would consult is not modelled).
\<close>

definition Reset :: "RichText \<Rightarrow> error + RichText" where
  "Reset rt =
     (if locs rt = [] \<or> faces rt = [] then Inl SliceBounds
      else Inr (rt\<lparr>Builder := [], locs := take 1 (locs rt), faces := take 1 (faces rt)\<rparr>))"

definition WriteString :: "RichText \<Rightarrow> byte list \<Rightarrow> RichText" where
  "WriteString rt s = rt\<lparr>Builder := Builder rt @ s\<rparr>"

definition WriteRune :: "RichText \<Rightarrow> rune \<Rightarrow> RichText" where
  "WriteRune rt r = rt\<lparr>Builder := Builder rt @ encodeRune r\<rparr>"

definition setFace :: "RichText \<Rightarrow> FontFacePtr \<Rightarrow> error + RichText" where
  "setFace rt face =
     (if faces rt = [] then Inl IndexOutOfRange
      else if face = last (faces rt) then Inr rt
      else if locs rt = [] then Inl IndexOutOfRange
      else
        let prevLoc = last (locs rt);
            rt1 = (if Len rt - prevLoc = 0
                   then rt\<lparr>locs := butlast (locs rt), faces := butlast (faces rt)\<rparr>
                   else rt)
        in Inr (rt1\<lparr>locs := locs rt1 @ [runeCount (Builder rt)],
                    faces := faces rt1 @ [face]\<rparr>))"

definition SetFace :: "RichText \<Rightarrow> FontFacePtr \<Rightarrow> error + RichText" where
  "SetFace rt face = (if face = None then Inl NilFontFace else setFace rt face)"

text \<open>The scan of \<^verbatim>\<open>SetFaceSpan\<close> over \<^verbatim>\<open>rt.locs\<close> from index \<open>k\<close>.\<close>

fun spanScan :: "int list \<Rightarrow> int \<Rightarrow> int \<Rightarrow> int \<Rightarrow> int \<Rightarrow> int \<Rightarrow> int \<times> int" where
  "spanScan [] start end k i j = (i, j)"
| "spanScan (l # ls) start end k i j =
     (let i' = (if l < start then k else i)
      in if end \<le> l then (i', k - 1) else spanScan ls start end (k + 1) i' j)"

text \<open>
  In \<^verbatim>\<open>rt.locs[j] = len([]rune(rt.String()[:end]))\<close> the right-hand side is evaluated
  first: a negative \<open>end\<close> is a slice out of bounds before \<^verbatim>\<open>rt.locs[j]\<close> is indexed.
\<close>

definition SetFaceSpan :: "RichText \<Rightarrow> FontFacePtr \<Rightarrow> int \<Rightarrow> int \<Rightarrow> error + RichText" where
  "SetFaceSpan rt face start end0 =
     (if end0 \<le> start \<or> Len rt \<le> start then Inr rt
      else
        let end = (if Len rt < end0 then Len rt else end0);
            (i, j) = spanScan (locs rt) start end 0 0 (int (length (locs rt)) - 1)
        in if end < 0 then Inl SliceBounds
           else if j < 0 \<or> int (length (locs rt)) \<le> j then Inl IndexOutOfRange
           else if start < 0 then Inl SliceBounds
           else
             let locs1 = (locs rt)[nat j := runeCount (take (nat end) (Builder rt))]
             in if int (length (faces rt)) < i \<or> int (length (faces rt)) < j
                then Inl SliceBounds
                else Inr (rt\<lparr>
                  locs := take (nat i) locs1 @ [runeCount (take (nat start) (Builder rt))]
                            @ drop (nat j) locs1,
                  faces := take (nat i) (faces rt) @ [face] @ drop (nat j) (faces rt)\<rparr>))"

text \<open>
  \<^verbatim>\<open>AddCanvas\<close>: the placeholder rune is \<^verbatim>\<open>rune(len(rt.objects))\<close>, an int to
  int32 conversion.
\<close>

definition AddCanvas :: "RichText \<Rightarrow> Canvas \<Rightarrow> VerticalAlign \<Rightarrow> error + RichText" where
  "AddCanvas rt c valign =
     (if faces rt = [] then Inl IndexOutOfRange
      else
        let face = last (faces rt)
        in case setFace rt None of
             Inl e \<Rightarrow> Inl e
           | Inr rt1 \<Rightarrow>
               let rt2 = WriteRune rt1 (of_nat (length (objects rt1)));
                   rt3 = rt2\<lparr>objects := objects rt2 @
                           [\<lparr>objCanvas = c, objX = 0, objY = 0, objWidth = canvasW c,
                             objHeight = canvasH c, objVAlign = valign\<rparr>]\<rparr>
               in setFace rt3 face)"

section \<open>The script itemizer\<close>

text \<open>
  The scripts that the code names, and \<open>OtherScript\<close> for the rest of the script table.
\<close>

datatype Script =
    ScriptInvalid | ScriptInherited | ScriptCommon
  | Bopomofo | Brahmi | EgyptianHieroglyphs | Han | Hangul | Hiragana | Katakana | Khmer
  | Lao | MeroiticCursive | MeroiticHieroglyphs | Mongolian | Myanmar | NewTaiLue | Ogham
  | OldTurkic | PhagsPa | TaiLe | TaiTham | TaiViet | Thai | Tibetan | Yi
  | OtherScript nat

record ScriptItem =
  itemScript :: Script
  itemText :: "byte list"

text \<open>\<^verbatim>\<open>runes[i:j]\<close> for \<open>i \<le> j \<le> len(runes)\<close>.\<close>

definition slice :: "'a list \<Rightarrow> nat \<Rightarrow> nat \<Rightarrow> 'a list" where
  "slice xs i j = take (j - i) (drop i xs)"

text \<open>
  The update of the script stack for a rune of script \<open>script\<close> at embedding level
  \<open>level\<close>: the new stack and the script the rune counts as. Reading or writing
  \<^verbatim>\<open>scripts[level]\<close> at a negative level panics.
\<close>

definition pushScript :: "Script list \<Rightarrow> Script \<Rightarrow> int \<Rightarrow> error + (Script list \<times> Script)" where
  "pushScript scripts script level =
     (if int (length scripts) \<le> level then
        Inr (scripts @ replicate (nat level - length scripts) ScriptInherited @ [script], script)
      else if level < 0 then Inl IndexOutOfRange
      else if script \<noteq> ScriptInherited \<and> script \<noteq> ScriptCommon then
        Inr (take (nat level + 1) (scripts[nat level := script]), script)
      else
        Inr (take (nat level + 1) scripts, scripts ! nat level))"

text \<open>
  The loop of \<^verbatim>\<open>ScriptItemizer\<close> from index \<open>j\<close> on, over the runes that are left;
  \<open>LookupScript\<close> is the script table of the text package.
\<close>

fun itemizeLoop ::
  "(rune \<Rightarrow> Script) \<Rightarrow> rune list \<Rightarrow> int list \<Rightarrow> nat \<Rightarrow> rune list \<Rightarrow> nat \<Rightarrow> ScriptItem list
    \<Rightarrow> Script list \<Rightarrow> error + (nat \<times> ScriptItem list \<times> Script list)" where
  "itemizeLoop LookupScript runes embeddingLevels j [] i items scripts = Inr (i, items, scripts)"
| "itemizeLoop LookupScript runes embeddingLevels j (r # rest) i items scripts =
     (if scripts = [] then Inl IndexOutOfRange
      else
        let curLevel = int (length scripts) - 1;
            curScript = last scripts
        in if length embeddingLevels \<le> j then Inl IndexOutOfRange
           else
             let level = embeddingLevels ! j
             in case pushScript scripts (LookupScript r) level of
                  Inl e \<Rightarrow> Inl e
                | Inr (scripts', script) \<Rightarrow>
                    if j \<noteq> 0 \<and> (curLevel \<noteq> level \<or>
                         curScript \<noteq> script \<and> curScript \<noteq> ScriptInherited
                         \<and> curScript \<noteq> ScriptCommon \<and> script \<noteq> ScriptInherited
                         \<and> script \<noteq> ScriptCommon)
                    then itemizeLoop LookupScript runes embeddingLevels (j + 1) rest j
                           (items @ [\<lparr>itemScript = curScript,
                                      itemText = string_of_runes (slice runes i j)\<rparr>])
                           scripts'
                    else itemizeLoop LookupScript runes embeddingLevels (j + 1) rest i items
                           scripts')"

definition ScriptItemizer ::
  "(rune \<Rightarrow> Script) \<Rightarrow> rune list \<Rightarrow> int list \<Rightarrow> error + ScriptItem list" where
  "ScriptItemizer LookupScript runes embeddingLevels =
     (if runes = [] then Inr []
      else case itemizeLoop LookupScript runes embeddingLevels 0 runes 0 [] [ScriptInherited] of
             Inl e \<Rightarrow> Inl e
           | Inr (i, items, scripts) \<Rightarrow>
               if scripts = [] then Inl IndexOutOfRange
               else Inr (items @ [\<lparr>itemScript = last scripts,
                                    itemText = string_of_runes (drop i runes)\<rparr>]))"

text \<open>A script table for the examples: Latin letters, everything else common.\<close>

definition sampleLookupScript :: "rune \<Rightarrow> Script" where
  "sampleLookupScript r =
     (if (0x41 \<le> r \<and> r \<le> 0x5A) \<or> (0x61 \<le> r \<and> r \<le> 0x7A) then OtherScript 0
      else if 0x4E00 \<le> r \<and> r \<le> 0x9FFF then Han
      else ScriptCommon)"

section \<open>Line-breaking items and breakpoints\<close>

text \<open>
  The fields of \<^verbatim>\<open>text.Item\<close> and \<^verbatim>\<open>text.Breakpoint\<close> that \<^verbatim>\<open>ToText\<close> reads and
  writes. A \<^verbatim>\<open>float64\<close> is taken as a real number: the claims depend on which numbers
  are added and compared, not on rounding. The breakpoints of a list are distinct objects.
\<close>

datatype ItemType = BoxType | GlueType | PenaltyType

record Item =
  itType :: ItemType
  itWidth :: real
  itStretch :: real
  itShrink :: real
  itPenalty :: real
  itSize :: int

record Breakpoint =
  bpPosition :: int
  bpRatio :: real
  bpWidth :: real

text \<open>
  The loop of \<^verbatim>\<open>ToText\<close> for a zero width, from item \<open>i\<close> on; \<open>Infinity\<close> is the
  constant \<^verbatim>\<open>text.Infinity\<close>.
\<close>

fun zeroWidthLoop :: "real \<Rightarrow> Item list \<Rightarrow> nat \<Rightarrow> real \<Rightarrow> Breakpoint list \<Rightarrow> Breakpoint list" where
  "zeroWidthLoop Infinity [] i lineWidth breaks = breaks"
| "zeroWidthLoop Infinity (item # rest) i lineWidth breaks =
     (if itType item \<noteq> PenaltyType then
        zeroWidthLoop Infinity rest (i + 1) (lineWidth + itWidth item) breaks
      else if itPenalty item \<le> - Infinity then
        zeroWidthLoop Infinity rest (i + 1) 0
          (breaks @ [\<lparr>bpPosition = int i, bpRatio = 0, bpWidth = lineWidth\<rparr>])
      else zeroWidthLoop Infinity rest (i + 1) lineWidth breaks)"

text \<open>
  The breakpoints of \<^verbatim>\<open>ToText\<close> and its \<^verbatim>\<open>overflows\<close> flag; \<open>Linebreak\<close> is
  \<^verbatim>\<open>text.Linebreak\<close>, called with looseness 0.
\<close>

definition lineBreaks ::
  "(Item list \<Rightarrow> real \<Rightarrow> int \<Rightarrow> Breakpoint list \<times> bool) \<Rightarrow> real \<Rightarrow> Item list \<Rightarrow> real
    \<Rightarrow> Breakpoint list \<times> bool" where
  "lineBreaks Linebreak Infinity items width =
     (if width \<noteq> 0 then (case Linebreak items width 0 of (breaks, ok) \<Rightarrow> (breaks, \<not> ok))
      else if items = [] then ([\<lparr>bpPosition = 0, bpRatio = 0, bpWidth = 0\<rparr>], False)
      else (zeroWidthLoop Infinity items 0 0 [], False))"

text \<open>
  A forced break is a penalty whose cost is at most minus infinity; \<open>widthBetween\<close> adds
  the widths of the items that are not penalties, from index \<open>a\<close> up to index \<open>b\<close>.
\<close>

definition forcedBreak :: "real \<Rightarrow> Item \<Rightarrow> bool" where
  "forcedBreak Infinity item \<longleftrightarrow> itType item = PenaltyType \<and> itPenalty item \<le> - Infinity"

definition widthBetween :: "Item list \<Rightarrow> nat \<Rightarrow> nat \<Rightarrow> real" where
  "widthBetween items a b =
     sum_list (map itWidth (filter (\<lambda>item. itType item \<noteq> PenaltyType) (slice items a b)))"

text \<open>Items for the examples: two lines that end in forced breaks.\<close>

definition sampleItems :: "Item list" where
  "sampleItems =
     [\<lparr>itType = BoxType, itWidth = 3, itStretch = 0, itShrink = 0, itPenalty = 0, itSize = 1\<rparr>,
      \<lparr>itType = GlueType, itWidth = 1, itStretch = 1, itShrink = 1, itPenalty = 0, itSize = 1\<rparr>,
      \<lparr>itType = BoxType, itWidth = 2, itStretch = 0, itShrink = 0, itPenalty = 0, itSize = 1\<rparr>,
      \<lparr>itType = PenaltyType, itWidth = 0, itStretch = 0, itShrink = 0, itPenalty = - 1000,
        itSize = 1\<rparr>,
      \<lparr>itType = BoxType, itWidth = 4, itStretch = 0, itShrink = 0, itPenalty = 0, itSize = 1\<rparr>,
      \<lparr>itType = PenaltyType, itWidth = 7, itStretch = 0, itShrink = 0, itPenalty = 50,
        itSize = 0\<rparr>,
      \<lparr>itType = GlueType, itWidth = 1, itStretch = 1, itShrink = 1, itPenalty = 0, itSize = 1\<rparr>,
      \<lparr>itType = PenaltyType, itWidth = 0, itStretch = 0, itShrink = 0, itPenalty = - 1000,
        itSize = 0\<rparr>]"
section \<open>The clean-up of the items after line breaking\<close>

text \<open>
  The variables of the clean-up loop of \<^verbatim>\<open>ToText\<close>: the items and breakpoints (both
  changed in place), the item index \<open>k\<close>, the break index \<open>j\<close>, the number \<open>shift\<close>
  of removed items and the glyph index \<open>i\<close>. An \<^verbatim>\<open>int\<close> is taken as an unbounded
  integer.
\<close>

record cleanup =
  cuItems :: "Item list"
  cuBreaks :: "Breakpoint list"
  cuK :: nat
  cuJ :: nat
  cuShift :: int
  cuI :: int

text \<open>\<^verbatim>\<open>items = append(items[:k], items[k+1:]...)\<close>\<close>

definition removeAt :: "'a list \<Rightarrow> nat \<Rightarrow> 'a list" where
  "removeAt xs k = take k xs @ drop (k + 1) xs"

text \<open>The branches of the loop body, in the order of the source.\<close>

datatype branch =
    KeepBreak | LeadingGlue | TrailingGlue | DropPenalty | DropGlue
  | MergeGlues | MergeBoxes | GlueIntoBox | NoChange

text \<open>
  The branch that the \<^verbatim>\<open>if\<close> chain takes for \<open>k < len(items)\<close> and
  \<open>j < len(breaks)\<close>.
\<close>

definition cleanupBranch :: "cleanup \<Rightarrow> branch" where
  "cleanupBranch s =
     (let items = cuItems s; breaks = cuBreaks s; k = cuK s; j = cuJ s; shift = cuShift s
      in if int k = bpPosition (breaks ! j) - shift then KeepBreak
      else if 0 < k \<and> itType (items ! k) = GlueType \<and> 0 < j
              \<and> int k - 1 = bpPosition (breaks ! (j - 1)) then LeadingGlue
      else if k + 1 < length items \<and> itType (items ! k) = GlueType
              \<and> int k + 1 = bpPosition (breaks ! j) - shift then TrailingGlue
      else if itType (items ! k) = PenaltyType \<and> itSize (items ! k) = 0 then DropPenalty
      else if itType (items ! k) = GlueType \<and> itSize (items ! k) = 0
              \<and> bpRatio (breaks ! j) = 0 then DropGlue
      else if 0 < k \<and> itType (items ! k) = GlueType \<and> itType (items ! (k - 1)) = GlueType
        then MergeGlues
      else if 0 < k \<and> itType (items ! k) = BoxType \<and> itType (items ! (k - 1)) = BoxType
        then MergeBoxes
      else if 0 < k \<and> itType (items ! k) = GlueType
              \<and> (bpRatio (breaks ! j) = 0
                   \<or> itStretch (items ! k) = 0 \<and> itShrink (items ! k) = 0)
              \<and> itType (items ! (k - 1)) = BoxType then GlueIntoBox
      else NoChange)"

text \<open>
  What a branch does to the items, the breakpoints and the counters, without the
  \<^verbatim>\<open>i += size\<close> that ends every pass. The \<^verbatim>\<open>k++\<close> of the loop header is included:
  after \<^verbatim>\<open>k--\<close> the index stays, after \<^verbatim>\<open>k -= 2\<close> it goes back by one.
\<close>

fun cleanupBody :: "branch \<Rightarrow> cleanup \<Rightarrow> cleanup" where
  "cleanupBody KeepBreak s =
     s\<lparr>cuBreaks := (cuBreaks s)[cuJ s := (cuBreaks s ! cuJ s)
                       \<lparr>bpPosition := bpPosition (cuBreaks s ! cuJ s) - cuShift s\<rparr>],
       cuJ := cuJ s + 1, cuK := cuK s + 1\<rparr>"
| "cleanupBody LeadingGlue s =
     s\<lparr>cuItems := removeAt
         ((cuItems s)[cuK s - 1 := (cuItems s ! (cuK s - 1))
            \<lparr>itSize := itSize (cuItems s ! (cuK s - 1)) + itSize (cuItems s ! cuK s)\<rparr>])
         (cuK s),
       cuShift := cuShift s + 1\<rparr>"
| "cleanupBody TrailingGlue s =
     s\<lparr>cuItems := removeAt
         ((cuItems s)[cuK s + 1 := (cuItems s ! (cuK s + 1))
            \<lparr>itSize := itSize (cuItems s ! (cuK s + 1)) + itSize (cuItems s ! cuK s)\<rparr>])
         (cuK s),
       cuShift := cuShift s + 1\<rparr>"
| "cleanupBody DropPenalty s =
     s\<lparr>cuItems := removeAt (cuItems s) (cuK s), cuShift := cuShift s + 1\<rparr>"
| "cleanupBody DropGlue s =
     s\<lparr>cuItems := removeAt (cuItems s) (cuK s), cuShift := cuShift s + 1\<rparr>"
| "cleanupBody MergeGlues s =
     s\<lparr>cuItems := removeAt
         ((cuItems s)[cuK s - 1 := (cuItems s ! (cuK s - 1))
            \<lparr>itWidth := itWidth (cuItems s ! (cuK s - 1)) + itWidth (cuItems s ! cuK s),
             itStretch := itStretch (cuItems s ! (cuK s - 1)) + itStretch (cuItems s ! cuK s),
             itShrink := itShrink (cuItems s ! (cuK s - 1)) + itShrink (cuItems s ! cuK s),
             itSize := itSize (cuItems s ! (cuK s - 1)) + itSize (cuItems s ! cuK s)\<rparr>])
         (cuK s),
       cuShift := cuShift s + 1, cuK := cuK s - 1\<rparr>"
| "cleanupBody MergeBoxes s =
     s\<lparr>cuItems := removeAt
         ((cuItems s)[cuK s - 1 := (cuItems s ! (cuK s - 1))
            \<lparr>itWidth := itWidth (cuItems s ! (cuK s - 1)) + itWidth (cuItems s ! cuK s),
             itSize := itSize (cuItems s ! (cuK s - 1)) + itSize (cuItems s ! cuK s)\<rparr>])
         (cuK s),
       cuShift := cuShift s + 1\<rparr>"
| "cleanupBody GlueIntoBox s =
     s\<lparr>cuItems := removeAt
         ((cuItems s)[cuK s - 1 := (cuItems s ! (cuK s - 1))
            \<lparr>itType := BoxType,
             itWidth := itWidth (cuItems s ! (cuK s - 1)) + itWidth (cuItems s ! cuK s),
             itSize := itSize (cuItems s ! (cuK s - 1)) + itSize (cuItems s ! cuK s)\<rparr>])
         (cuK s),
       cuShift := cuShift s + 1\<rparr>"
| "cleanupBody NoChange s = s\<lparr>cuK := cuK s + 1\<rparr>"

text \<open>
  One pass for \<open>k < len(items)\<close>: \<^verbatim>\<open>size := items[k].Size\<close> is read first, then
  \<^verbatim>\<open>breaks[j]\<close>, which panics when \<open>j\<close> is out of range.
\<close>

definition cleanupStep :: "cleanup \<Rightarrow> error + cleanup" where
  "cleanupStep s =
     (if length (cuBreaks s) \<le> cuJ s then Inl IndexOutOfRange
      else Inr ((cleanupBody (cleanupBranch s) s)\<lparr>cuI := cuI s + itSize (cuItems s ! cuK s)\<rparr>))"

function cleanupLoop :: "cleanup \<Rightarrow> error + cleanup" where
  "cleanupLoop s =
     (if cuK s < length (cuItems s) then
        (case cleanupStep s of Inl e \<Rightarrow> Inl e | Inr s' \<Rightarrow> cleanupLoop s')
      else Inr s)"
  by pat_completeness auto
termination
proof (relation "measure (\<lambda>s. 2 * length (cuItems s) - cuK s)")
  show "wf (measure (\<lambda>s. 2 * length (cuItems s) - cuK s))" by simp
next
  fix s s'
  assume k: "cuK s < length (cuItems s)" and st: "cleanupStep s = Inr s'"
  from st have s': "cuItems s' = cuItems (cleanupBody (cleanupBranch s) s)"
    "cuK s' = cuK (cleanupBody (cleanupBranch s) s)"
    by (auto simp: cleanupStep_def split: if_splits)
  have "2 * length (cuItems (cleanupBody b s)) - cuK (cleanupBody b s)
      < 2 * length (cuItems s) - cuK s" for b
    using k by (cases b) (simp_all add: removeAt_def)
  then show "(s', s) \<in> measure (\<lambda>s. 2 * length (cuItems s) - cuK s)"
    by (simp add: s')
qed

declare cleanupLoop.simps [simp del]

text \<open>
  The clean-up as \<^verbatim>\<open>ToText\<close> runs it: the first item goes when its width is zero (the
  empty indent box), then the loop.
\<close>

definition cleanupItems :: "Item list \<Rightarrow> Breakpoint list \<Rightarrow> error + cleanup" where
  "cleanupItems items breaks =
     (if 0 < length items \<and> itWidth (items ! 0) = 0 then
        cleanupLoop \<lparr>cuItems = drop 1 items, cuBreaks = breaks, cuK = 0, cuJ = 0,
                     cuShift = 1, cuI = 0\<rparr>
      else
        cleanupLoop \<lparr>cuItems = items, cuBreaks = breaks, cuK = 0, cuJ = 0,
                     cuShift = 0, cuI = 0\<rparr>)"

definition totalSize :: "Item list \<Rightarrow> int" where
  "totalSize items = sum_list (map itSize items)"

section \<open>Glyphs, spans, lines and the text\<close>

datatype Direction = DirectionInvalid | LeftToRight | RightToLeft | TopToBottom | BottomToTop
datatype Rotation = NoRotation | CW | CCW
datatype TextAlign = Left | Right | Center | Middle | Top | Bottom | Justify
datatype Align = AlignLeft | Justified

text \<open>A glyph; \<^verbatim>\<open>SFNT\<close> is a pointer, nil in the zero value.\<close>

record Glyph =
  gSFNT :: "nat option"
  gSize :: real
  gScript :: Script
  gVertical :: bool
  gID :: "16 word"
  gCluster :: "32 word"
  gXAdvance :: "32 word"
  gYAdvance :: "32 word"
  gXOffset :: "32 word"
  gYOffset :: "32 word"
  gText :: rune

record TextSpan =
  tsX :: real
  tsWidth :: real
  tsFace :: FontFacePtr
  tsText :: "byte list"
  tsGlyphs :: "Glyph list"
  tsDirection :: Direction
  tsRotation :: Rotation
  tsObjects :: "TextSpanObject list"

record line =
  lineY :: real
  lineSpans :: "TextSpan list"

text \<open>The \<^verbatim>\<open>Text\<close> struct; \<^verbatim>\<open>fonts\<close> is the set of the keys of the map.\<close>

record Text =
  tLines :: "line list"
  tFonts :: "nat set"
  tMode :: WritingMode
  tOrient :: TextOrientation
  tWidth :: real
  tHeight :: real
  tText :: "byte list"
  Overflows :: bool

section \<open>The collaborators of the layout\<close>

text \<open>
  What \<^verbatim>\<open>ToText\<close> calls outside the source files at hand, as parameters: the bidi
  levels, the script table, the shaper, the item builder and the line breaker of the text
  package, and the accessors of a font face, given by its address. The shaper of a face is
  called with the pixels per em, language, features and variations of that face, so it is
  a function of the face, the text, the direction and the script. A \<^verbatim>\<open>float64\<close> is
  taken as a real number; \<^verbatim>\<open>math.IsInf\<close> and the conversion \<^verbatim>\<open>int32(x)\<close> of a float
  are parameters too.
\<close>

record environment =
  envEmbeddingLevels :: "rune list \<Rightarrow> int list"
  envLookupScript :: "rune \<Rightarrow> Script"
  envShape :: "nat \<Rightarrow> byte list \<Rightarrow> Direction \<Rightarrow> Script \<Rightarrow> Glyph list \<times> Direction"
  envGlyphsToItems :: "Glyph list \<Rightarrow> real \<Rightarrow> Align \<Rightarrow> Item list"
  envLinebreak :: "Item list \<Rightarrow> real \<Rightarrow> int \<Rightarrow> Breakpoint list \<times> bool"
  envInfinity :: real
  envIsInf :: "real \<Rightarrow> bool"
  envInt32 :: "real \<Rightarrow> 32 word"
  faceDirection :: "nat \<Rightarrow> Direction"
  faceSize :: "nat \<Rightarrow> real"
  faceFont :: "nat \<Rightarrow> nat"
  faceSFNT :: "nat \<Rightarrow> nat"
  faceHeights :: "nat \<Rightarrow> WritingMode \<Rightarrow> real \<times> real \<times> real \<times> real"
  faceTextWidth :: "nat \<Rightarrow> Glyph list \<Rightarrow> real"
  faceAscent :: "nat \<Rightarrow> real"
  faceDescent :: "nat \<Rightarrow> real"
  faceLineGap :: "nat \<Rightarrow> real"
  faceMmPerEm :: "nat \<Rightarrow> real"
  faceGlyphIndex :: "nat \<Rightarrow> rune \<Rightarrow> 16 word"
  faceGlyphAdvance :: "nat \<Rightarrow> 16 word \<Rightarrow> 16 word"
  sfntUnitsPerEm :: "nat \<Rightarrow> 16 word"
  sfntDescender :: "nat \<Rightarrow> 16 word"
  sfntSxHeight :: "nat \<Rightarrow> 16 word"
  sfntGlyphAdvance :: "nat \<Rightarrow> 16 word \<Rightarrow> 16 word"

text \<open>Sequencing of calls that may panic.\<close>

definition andThen :: "error + 'a \<Rightarrow> ('a \<Rightarrow> error + 'b) \<Rightarrow> error + 'b" where
  "andThen m f = (case m of Inl e \<Rightarrow> Inl e | Inr x \<Rightarrow> f x)"

text \<open>\<^verbatim>\<open>xs[i]\<close> and \<^verbatim>\<open>xs[a:b]\<close> for integer indices, with the panics of Go.\<close>

definition elemAt :: "'a list \<Rightarrow> int \<Rightarrow> error + 'a" where
  "elemAt xs i = (if 0 \<le> i \<and> i < int (length xs) then Inr (xs ! nat i) else Inl IndexOutOfRange)"

definition sliceOf :: "'a list \<Rightarrow> int \<Rightarrow> int \<Rightarrow> error + 'a list" where
  "sliceOf xs a b =
     (if 0 \<le> a \<and> a \<le> b \<and> b \<le> int (length xs) then Inr (slice xs (nat a) (nat b))
      else Inl SliceBounds)"

text \<open>A method called through a nil face pointer dereferences it.\<close>

definition deref :: "FontFacePtr \<Rightarrow> error + nat" where
  "deref face = (case face of None \<Rightarrow> Inl NilDereference | Some f \<Rightarrow> Inr f)"

section \<open>The indexer\<close>

fun indexFrom :: "int list \<Rightarrow> int \<Rightarrow> int \<Rightarrow> int" where
  "indexFrom [] loc n = n - 1"
| "indexFrom (start # rest) loc n = (if loc < start then n - 1 else indexFrom rest loc (n + 1))"

definition indexer_index :: "int list \<Rightarrow> int \<Rightarrow> int" where
  "indexer_index indexer loc = indexFrom indexer loc 0"

section \<open>Scripts and directions\<close>

definition IsVerticalScript :: "Script \<Rightarrow> bool" where
  "IsVerticalScript script \<longleftrightarrow>
     script = Bopomofo \<or> script = EgyptianHieroglyphs \<or> script = Hiragana
     \<or> script = Katakana \<or> script = Han \<or> script = Hangul \<or> script = MeroiticCursive
     \<or> script = MeroiticHieroglyphs \<or> script = Mongolian \<or> script = Ogham
     \<or> script = OldTurkic \<or> script = PhagsPa \<or> script = Yi"

definition ScriptRotation :: "Script \<Rightarrow> Rotation" where
  "ScriptRotation script =
     (if script = Mongolian \<or> script = PhagsPa then CW
      else if script = Ogham \<or> script = OldTurkic then CCW
      else NoRotation)"

definition scriptDirection ::
  "WritingMode \<Rightarrow> TextOrientation \<Rightarrow> Script \<Rightarrow> Direction \<Rightarrow> Direction \<times> Rotation" where
  "scriptDirection m orientation script direction0 =
     (let direction =
            (if direction0 = TopToBottom \<or> direction0 = BottomToTop then
               (if m = HorizontalTB then LeftToRight else TopToBottom)
             else if m \<noteq> HorizontalTB then TopToBottom
             else direction0)
      in if m \<noteq> HorizontalTB then
           (if \<not> IsVerticalScript script \<and> orientation = Natural then (LeftToRight, CW)
            else if ScriptRotation script \<noteq> NoRotation then (LeftToRight, ScriptRotation script)
            else (direction, NoRotation))
         else (direction, NoRotation))"

definition reversed :: "Direction \<Rightarrow> bool" where
  "reversed direction \<longleftrightarrow> direction = RightToLeft \<or> direction = BottomToTop"

section \<open>Itemizing by font face and script\<close>

text \<open>
  The three parallel slices \<^verbatim>\<open>texts\<close>, \<^verbatim>\<open>scripts\<close> and \<^verbatim>\<open>faces\<close> of
  \<^verbatim>\<open>ToText\<close>.
\<close>

record runs =
  rnTexts :: "byte list list"
  rnScripts :: "Script list"
  rnFaces :: "FontFacePtr list"

text \<open>
  The body of \<^verbatim>\<open>if nextFace != curFace\<close>, and of the part after the loop: the runs of
  \<open>runes\<close>, which is \<^verbatim>\<open>logRunes[i:j]\<close>, under the face \<^verbatim>\<open>rt.faces[curFace]\<close>; the
  levels are sliced only for a text face.
\<close>

definition addRuns ::
  "environment \<Rightarrow> RichText \<Rightarrow> rune list \<Rightarrow> error + int list \<Rightarrow> int \<Rightarrow> runs \<Rightarrow> error + runs" where
  "addRuns env rt runes levels curFace rs =
     andThen (elemAt (faces rt) curFace) (\<lambda>face.
       if face = None then
         Inr (rs\<lparr>rnTexts := rnTexts rs @ [string_of_runes runes],
                 rnScripts := rnScripts rs @ [ScriptInvalid],
                 rnFaces := rnFaces rs @ [None]\<rparr>)
       else
         andThen levels (\<lambda>ls.
         andThen (ScriptItemizer (envLookupScript env) runes ls) (\<lambda>items.
           Inr (rs\<lparr>rnTexts := rnTexts rs @ map itemText items,
                   rnScripts := rnScripts rs @ map itemScript items,
                   rnFaces := rnFaces rs @ map (\<lambda>item. face) items\<rparr>))))"

text \<open>
  The loop \<^verbatim>\<open>for j := range logRunes\<close> over the indices \<open>js\<close> that are left, with the
  start \<open>i\<close> of the current run and the index \<open>curFace\<close> of its face.
\<close>

fun faceLoop ::
  "environment \<Rightarrow> RichText \<Rightarrow> rune list \<Rightarrow> int list \<Rightarrow> nat list \<Rightarrow> nat \<Rightarrow> int \<Rightarrow> runs
    \<Rightarrow> error + (nat \<times> int \<times> runs)" where
  "faceLoop env rt logRunes embeddingLevels [] i curFace rs = Inr (i, curFace, rs)"
| "faceLoop env rt logRunes embeddingLevels (j # js) i curFace rs =
     (let nextFace = indexer_index (locs rt) (int j)
      in if nextFace \<noteq> curFace then
           andThen (addRuns env rt (slice logRunes i j)
                      (sliceOf embeddingLevels (int i) (int j)) curFace rs)
             (\<lambda>rs'. faceLoop env rt logRunes embeddingLevels js j nextFace rs')
         else faceLoop env rt logRunes embeddingLevels js i curFace rs)"

definition itemizeFaces :: "environment \<Rightarrow> RichText \<Rightarrow> rune list \<Rightarrow> int list \<Rightarrow> error + runs" where
  "itemizeFaces env rt logRunes embeddingLevels =
     andThen (faceLoop env rt logRunes embeddingLevels [0..<length logRunes] 0 0
                \<lparr>rnTexts = [], rnScripts = [], rnFaces = []\<rparr>)
       (\<lambda>(i, curFace, rs).
          if i < length logRunes then
            addRuns env rt (drop i logRunes)
              (sliceOf embeddingLevels (int i) (int (length embeddingLevels))) curFace rs
          else Inr rs)"

section \<open>Shaping\<close>

text \<open>Division of an \<^verbatim>\<open>int32\<close> by 2, which truncates towards zero.\<close>

definition half32 :: "32 word \<Rightarrow> 32 word" where
  "half32 x = word_of_int (sgn (sint x) * (\<bar>sint x\<bar> div 2))"

text \<open>
  The pseudo glyph of the placeholder rune \<open>r\<close> at byte offset \<open>off\<close> of an object
  run.
\<close>

definition objectGlyph ::
  "environment \<Rightarrow> RichText \<Rightarrow> Script \<Rightarrow> 32 word \<Rightarrow> nat \<times> rune \<Rightarrow> error + Glyph" where
  "objectGlyph env rt script clusterOffset p =
     (case p of (off, r) \<Rightarrow>
        andThen (elemAt (objects rt) (sint r)) (\<lambda>obj.
        andThen (deref (defaultFace rt)) (\<lambda>d.
          let ppem = real (unat (sfntUnitsPerEm env (faceSFNT env d)));
              xadv = objWidth obj;
              yadv = (if mode rt \<noteq> HorizontalTB then - objHeight obj else objHeight obj)
          in Inr \<lparr>gSFNT = Some (faceSFNT env d), gSize = faceSize env d, gScript = script,
                  gVertical = (mode rt \<noteq> HorizontalTB), gID = ucast r,
                  gCluster = clusterOffset + of_nat off,
                  gXAdvance = envInt32 env (xadv * ppem / faceSize env d),
                  gYAdvance = envInt32 env (yadv * ppem / faceSize env d),
                  gXOffset = 0, gYOffset = 0, gText = 0\<rparr>)))"

fun objectGlyphs ::
  "environment \<Rightarrow> RichText \<Rightarrow> Script \<Rightarrow> 32 word \<Rightarrow> (nat \<times> rune) list \<Rightarrow> error + Glyph list" where
  "objectGlyphs env rt script clusterOffset [] = Inr []"
| "objectGlyphs env rt script clusterOffset (p # ps) =
     andThen (objectGlyph env rt script clusterOffset p) (\<lambda>g.
     andThen (objectGlyphs env rt script clusterOffset ps) (\<lambda>gs. Inr (g # gs)))"

text \<open>What \<^verbatim>\<open>ToText\<close> sets in a glyph that the shaper returned for the face \<open>f\<close>.\<close>

definition tagGlyph ::
  "environment \<Rightarrow> RichText \<Rightarrow> nat \<Rightarrow> Script \<Rightarrow> Direction \<Rightarrow> Rotation \<Rightarrow> 32 word \<Rightarrow> Glyph
    \<Rightarrow> Glyph" where
  "tagGlyph env rt f script direction rotation clusterOffset g =
     g\<lparr>gSFNT := Some (faceSFNT env f), gSize := faceSize env f, gScript := script,
       gVertical := (direction = TopToBottom \<or> direction = BottomToTop),
       gCluster := gCluster g + clusterOffset,
       gYOffset :=
         (if mode rt \<noteq> HorizontalTB then
            (if script = Mongolian then gYOffset g + scast (sfntDescender env (faceSFNT env f))
             else if rotation \<noteq> NoRotation then
               gYOffset g - half32 (scast (sfntSxHeight env (faceSFNT env f)))
             else if orient rt = Upright \<and> rotation = NoRotation \<and> \<not> IsVerticalScript script then
               half32 (- (ucast (sfntUnitsPerEm env (faceSFNT env f))
                          + scast (sfntSxHeight env (faceSFNT env f))))
             else gYOffset g)
          else gYOffset g)\<rparr>"

text \<open>
  The glyphs of one run as shaped and tagged, before \<^verbatim>\<open>ToText\<close> reverses them, with
  the direction and rotation of the run.
\<close>

definition shapeRun ::
  "environment \<Rightarrow> RichText \<Rightarrow> 32 word \<Rightarrow> FontFacePtr \<Rightarrow> Script \<Rightarrow> byte list
    \<Rightarrow> error + (Glyph list \<times> Direction \<times> Rotation)" where
  "shapeRun env rt clusterOffset face script txt =
     (case face of
        None \<Rightarrow>
          andThen (objectGlyphs env rt script clusterOffset (rangeString 0 txt))
            (\<lambda>gs. Inr (gs, DirectionInvalid, NoRotation))
      | Some f \<Rightarrow>
          (case scriptDirection (mode rt) (orient rt) script (faceDirection env f) of
             (direction0, rotation) \<Rightarrow>
               (case envShape env f txt direction0 script of
                  (gs, direction) \<Rightarrow>
                    Inr (map (tagGlyph env rt f script direction rotation clusterOffset) gs,
                         direction, rotation))))"

text \<open>
  The glyphs of a run as \<^verbatim>\<open>ToText\<close> stores them for line breaking: reversed in place for a
  right-to-left or bottom-to-top run.
\<close>

definition breakingOrder :: "Direction \<Rightarrow> Glyph list \<Rightarrow> Glyph list" where
  "breakingOrder direction gs = (if reversed direction then rev gs else gs)"

record shaped =
  shGlyphs :: "Glyph list"
  shIndices :: "int list"
  shDirections :: "Direction list"
  shRotations :: "Rotation list"

text \<open>The loop \<^verbatim>\<open>for k, text := range texts\<close> over the runs that are left.\<close>

fun shapeLoop ::
  "environment \<Rightarrow> RichText \<Rightarrow> (byte list \<times> Script \<times> FontFacePtr) list \<Rightarrow> 32 word \<Rightarrow> shaped
    \<Rightarrow> error + shaped" where
  "shapeLoop env rt [] clusterOffset sh = Inr sh"
| "shapeLoop env rt ((txt, script, face) # rest) clusterOffset sh =
     andThen (shapeRun env rt clusterOffset face script txt) (\<lambda>(gs, direction, rotation).
       shapeLoop env rt rest (clusterOffset + of_nat (length txt))
         (sh\<lparr>shIndices := shIndices sh @ [int (length (shGlyphs sh))],
             shGlyphs := shGlyphs sh @ breakingOrder direction gs,
             shDirections := shDirections sh @ [direction],
             shRotations := shRotations sh @ [rotation]\<rparr>))"

definition shapeRuns :: "environment \<Rightarrow> RichText \<Rightarrow> runs \<Rightarrow> error + shaped" where
  "shapeRuns env rt rs =
     shapeLoop env rt (zip (rnTexts rs) (zip (rnScripts rs) (rnFaces rs))) 0
       \<lparr>shGlyphs = [], shIndices = [], shDirections = [], shRotations = []\<rparr>"

section \<open>Line heights\<close>

text \<open>\<^verbatim>\<open>TextSpanObject.Heights\<close> for the face \<open>f\<close>.\<close>

definition objHeights :: "environment \<Rightarrow> TextSpanObject \<Rightarrow> nat \<Rightarrow> real \<times> real" where
  "objHeights env obj f =
     (case objVAlign obj of
        FontTop \<Rightarrow> (faceAscent env f, - (faceAscent env f - objHeight obj))
      | FontMiddle \<Rightarrow>
          ((faceAscent env f - faceDescent env f + objHeight obj) / 2,
           - (faceAscent env f - faceDescent env f - objHeight obj) / 2)
      | FontBottom \<Rightarrow> (- faceDescent env f + objHeight obj, faceDescent env f)
      | Baseline \<Rightarrow> (objHeight obj, 0))"

type_synonym heights = "real \<times> real \<times> real \<times> real"

definition maxHeights :: "heights \<Rightarrow> heights \<Rightarrow> heights" where
  "maxHeights h h' =
     (case h of (t, a, d, b) \<Rightarrow> case h' of (t', a', d', b') \<Rightarrow>
        (max t t', max a a', max d d', max b b'))"

text \<open>
  \<^verbatim>\<open>line.Heights\<close> in the horizontal mode: the heights after the objects, then after
  the spans, starting from \<open>h\<close>.
\<close>

fun objectsHeights :: "environment \<Rightarrow> nat \<Rightarrow> TextSpanObject list \<Rightarrow> heights \<Rightarrow> heights" where
  "objectsHeights env f [] h = h"
| "objectsHeights env f (obj # objs) h =
     (case objHeights env obj f of (spanAscent, spanDescent) \<Rightarrow>
        objectsHeights env f objs
          (maxHeights h (spanAscent + faceLineGap env f, spanAscent, spanDescent,
                         spanDescent + faceLineGap env f)))"

fun spansHeights :: "environment \<Rightarrow> TextSpan list \<Rightarrow> heights \<Rightarrow> error + heights" where
  "spansHeights env [] h = Inr h"
| "spansHeights env (sp # spans) h =
     (if tsObjects sp = [] then
        andThen (deref (tsFace sp)) (\<lambda>f.
          spansHeights env spans (maxHeights h (faceHeights env f HorizontalTB)))
      else
        andThen (deref (tsFace sp)) (\<lambda>f.
          spansHeights env spans (objectsHeights env f (tsObjects sp) h)))"

text \<open>
  The vertical modes: the heights and the widest upright glyph or object so far, after
  the glyphs of a text span, then after the spans.
\<close>

fun glyphsHeightsV ::
  "environment \<Rightarrow> WritingMode \<Rightarrow> FontFacePtr \<Rightarrow> Glyph list \<Rightarrow> heights \<times> real
    \<Rightarrow> error + heights \<times> real" where
  "glyphsHeightsV env m face [] hw = Inr hw"
| "glyphsHeightsV env m face (g # gs) hw =
     (case hw of (h, w) \<Rightarrow>
        if gVertical g then
          andThen (deref face) (\<lambda>f.
          andThen (deref (gSFNT g)) (\<lambda>sfnt.
            glyphsHeightsV env m face gs
              (h, max w (1.2 * faceMmPerEm env f * real (unat (sfntGlyphAdvance env sfnt (gID g)))))))
        else
          andThen (deref face) (\<lambda>f.
            glyphsHeightsV env m face gs (maxHeights h (faceHeights env f m), w)))"

fun spansHeightsV ::
  "environment \<Rightarrow> WritingMode \<Rightarrow> TextSpan list \<Rightarrow> heights \<times> real \<Rightarrow> error + heights \<times> real" where
  "spansHeightsV env m [] hw = Inr hw"
| "spansHeightsV env m (sp # spans) hw =
     (if tsObjects sp = [] then
        andThen (glyphsHeightsV env m (tsFace sp) (tsGlyphs sp) hw)
          (spansHeightsV env m spans)
      else
        spansHeightsV env m spans
          (fst hw, fold (\<lambda>obj w. max w (objWidth obj)) (tsObjects sp) (snd hw)))"

definition lineHeights :: "environment \<Rightarrow> line \<Rightarrow> WritingMode \<Rightarrow> error + heights" where
  "lineHeights env l m =
     (if m = HorizontalTB then spansHeights env (lineSpans l) (0, 0, 0, 0)
      else
        andThen (spansHeightsV env m (lineSpans l) ((0, 0, 0, 0), 0)) (\<lambda>(h, w).
          Inr (maxHeights h (w / 2, w / 2, w / 2, w / 2))))"

section \<open>Line assembly\<close>

text \<open>
  What the assembly loop of \<^verbatim>\<open>ToText\<close> reads and does not change: the logical text, the
  faces of the runs, the glyph indices, directions and rotations of the runs, the
  breakpoints, the box, the horizontal alignment, the line spacing and the number of
  items.
\<close>

record layout =
  loLog :: "byte list"
  loFaces :: "FontFacePtr list"
  loIndices :: "int list"
  loDirections :: "Direction list"
  loRotations :: "Rotation list"
  loBreaks :: "Breakpoint list"
  loWidth :: real
  loHeight :: real
  loHalign :: TextAlign
  loLineSpacing :: real
  loItems :: nat

text \<open>
  What the loop changes: the text \<open>t\<close>, the glyph array (shared with the glyph slices
  of the spans), the glyph index \<open>i\<close>, the line index \<open>j\<close>, and the positions \<open>x\<close>
  and \<open>y\<close>. \<open>asSpanEnd\<close> is the index in the glyph array at which the glyph slice of
  the span appended last ends: \<^verbatim>\<open>append(span.Glyphs, glyph)\<close> writes there, into the
  shared array, while that index is inside it.
\<close>

record assembly =
  asT :: Text
  asGlyphs :: "Glyph list"
  asSpanEnd :: int
  asI :: int
  asJ :: nat
  asX :: real
  asY :: real

text \<open>The start of a line: \<^verbatim>\<open>x\<close> after the alignment, from \<^verbatim>\<open>breaks[j].Width\<close>.\<close>

definition lineStart :: "layout \<Rightarrow> nat \<Rightarrow> error + real" where
  "lineStart lo j =
     (if loHalign lo = Right then
        andThen (elemAt (loBreaks lo) (int j)) (\<lambda>b. Inr (loWidth lo - bpWidth b))
      else if loHalign lo = Center \<or> loHalign lo = Middle then
        andThen (elemAt (loBreaks lo) (int j)) (\<lambda>b. Inr ((loWidth lo - bpWidth b) / 2))
      else Inr 0)"

text \<open>The text of glyphs, as the loops append it to the last span of a line.\<close>

definition glyphsText :: "Glyph list \<Rightarrow> byte list" where
  "glyphsText gs = concat (map (\<lambda>g. encodeRune (gText g)) gs)"

definition updateLast :: "('a \<Rightarrow> 'a) \<Rightarrow> 'a list \<Rightarrow> 'a list" where
  "updateLast f xs = (if xs = [] then [] else butlast xs @ [f (last xs)])"

definition updateLine :: "nat \<Rightarrow> (line \<Rightarrow> line) \<Rightarrow> Text \<Rightarrow> Text" where
  "updateLine j f t = t\<lparr>tLines := (tLines t)[j := f (tLines t ! j)]\<rparr>"

text \<open>
  \<^verbatim>\<open>for _, glyph := range glyphs[i : i+item.Size]\<close>, adding the text of the glyphs to the
  last span of line \<open>j\<close>, when that line has a span.
\<close>

definition addSpaces :: "Item \<Rightarrow> assembly \<Rightarrow> error + assembly" where
  "addSpaces item st =
     andThen (elemAt (tLines (asT st)) (int (asJ st))) (\<lambda>l.
       if lineSpans l = [] then Inr st
       else
         andThen (sliceOf (asGlyphs st) (asI st) (asI st + itSize item)) (\<lambda>gs.
           Inr (st\<lparr>asT := updateLine (asJ st)
                  (\<lambda>l. l\<lparr>lineSpans := updateLast
                     (\<lambda>sp. sp\<lparr>tsText := tsText sp @ glyphsText gs\<rparr>) (lineSpans l)\<rparr>)
                  (asT st)\<rparr>)))"

text \<open>
  The hyphen at a breakpoint: for a penalty of size 1 on the soft hyphen U+00AD, a hyphen
  glyph of the last span's face is appended to that span.
\<close>

definition hyphenate :: "environment \<Rightarrow> Item \<Rightarrow> assembly \<Rightarrow> error + assembly" where
  "hyphenate env item st =
     andThen (elemAt (tLines (asT st)) (int (asJ st))) (\<lambda>l.
       if lineSpans l = [] \<or> itType item \<noteq> PenaltyType \<or> itSize item \<noteq> 1 then Inr st
       else
         andThen (elemAt (asGlyphs st) (asI st)) (\<lambda>gi.
           if gText gi \<noteq> 0xAD then Inr st
           else
             andThen (deref (tsFace (last (lineSpans l)))) (\<lambda>f.
               let glyphId = faceGlyphIndex env f 0x2D;
                   glyph = \<lparr>gSFNT = Some (faceSFNT env f), gSize = faceSize env f,
                            gScript = ScriptInvalid, gVertical = False, gID = glyphId,
                            gCluster = 0, gXAdvance = ucast (faceGlyphAdvance env f glyphId),
                            gYAdvance = 0, gXOffset = 0, gYOffset = 0, gText = 0x2D\<rparr>
               in Inr (st\<lparr>asT := updateLine (asJ st)
                          (\<lambda>l. l\<lparr>lineSpans := updateLast
                             (\<lambda>sp. sp\<lparr>tsGlyphs := tsGlyphs sp @ [glyph],
                                      tsWidth := tsWidth sp + faceTextWidth env f [glyph],
                                      tsText := tsText sp @ [0x2D]\<rparr>) (lineSpans l)\<rparr>)
                          (asT st),
                        asGlyphs :=
                          (if 0 \<le> asSpanEnd st \<and> asSpanEnd st < int (length (asGlyphs st))
                           then (asGlyphs st)[nat (asSpanEnd st) := glyph]
                           else asGlyphs st),
                        asSpanEnd := asSpanEnd st + 1\<rparr>))))"

text \<open>
  The item at a breakpoint. The result says whether the loop goes on: it ends when the
  line does not fit the height of the box, and at the last item.
\<close>

definition atBreak ::
  "environment \<Rightarrow> RichText \<Rightarrow> layout \<Rightarrow> nat \<Rightarrow> Item \<Rightarrow> assembly \<Rightarrow> error + (assembly \<times> bool)" where
  "atBreak env rt lo position item st0 =
     andThen (addSpaces item st0) (\<lambda>st1.
     andThen (hyphenate env item st1) (\<lambda>st.
     andThen (elemAt (tLines (asT st)) (int (asJ st))) (\<lambda>l.
     andThen
       (if lineSpans l = [] then
          andThen (elemAt (loFaces lo) (indexer_index (loIndices lo) (asI st))) (\<lambda>face.
          andThen (deref face) (\<lambda>f. Inr (faceHeights env f (mode rt))))
        else lineHeights env l (mode rt)) (\<lambda>(top, ascent0, descent, bottom0).
       let ascent = (if 0 < asJ st then ascent0 * loLineSpacing lo else ascent0);
           bottom = bottom0 * loLineSpacing lo;
           t = asT st
       in if loHeight lo \<noteq> 0 \<and> loHeight lo < asY st + ascent + descent then
            (if 0 < asJ st then
               andThen (elemAt (asGlyphs st) (asI st)) (\<lambda>gi.
               andThen (sliceOf (loLog lo) 0 (uint (gCluster gi))) (\<lambda>cut.
                 Inr (st\<lparr>asT := t\<lparr>tLines := butlast (tLines t), tText := cut\<rparr>\<rparr>, False)))
             else
               Inr (st\<lparr>asT := t\<lparr>tLines := butlast (tLines t), tText := []\<rparr>, asY := 0\<rparr>,
                    False))
          else
            let st2 = st\<lparr>asT := updateLine (asJ st) (\<lambda>l. l\<lparr>lineY := asY st + ascent\<rparr>) t,
                        asY := asY st + ascent + bottom\<rparr>
            in if int position = int (loItems lo) - 1 then Inr (st2, False)
               else
                 let j' = (if asJ st + 1 < length (loBreaks lo) then asJ st + 1 else asJ st);
                     t2 = asT st2
                 in andThen (lineStart lo j') (\<lambda>x.
                      Inr (st2\<lparr>asT := t2\<lparr>tLines := tLines t2 @ [\<lparr>lineY = 0, lineSpans = []\<rparr>]\<rparr>,
                               asJ := j', asX := x\<rparr>, True))))))"

text \<open>
  The objects of an object span: for each glyph the object of the table, by value, placed
  at the width \<open>w\<close> so far.
\<close>

fun spanObjects ::
  "RichText \<Rightarrow> Glyph list \<Rightarrow> real \<Rightarrow> TextSpanObject list
    \<Rightarrow> error + (real \<times> TextSpanObject list)" where
  "spanObjects rt [] w objs = Inr (w, objs)"
| "spanObjects rt (g # gs) w objs =
     andThen (elemAt (objects rt) (uint (gID g))) (\<lambda>obj.
       if mode rt = HorizontalTB then
         spanObjects rt gs (w + objWidth obj) (objs @ [obj\<lparr>objX := w\<rparr>])
       else
         spanObjects rt gs (w + objHeight obj)
           (objs @ [obj\<lparr>objX := - objWidth obj / 2, objY := - w - objHeight obj\<rparr>]))"

text \<open>\<^verbatim>\<open>glyphs[a:b]\<close> reversed in place, for \<open>0 \<le> a \<le> b \<le> len(glyphs)\<close>.\<close>

definition reverseRange :: "'a list \<Rightarrow> nat \<Rightarrow> nat \<Rightarrow> 'a list" where
  "reverseRange xs a b = take a xs @ rev (slice xs a b) @ drop b xs"

text \<open>
  The span order of a right-to-left or bottom-to-top span appended last to \<open>spans\<close>,
  with width \<open>w\<close> at position \<open>xdx\<close>: it takes the place of the reversed spans right
  before it, which move on by its width and the space between.
\<close>

definition reorderSpans :: "real \<Rightarrow> real \<Rightarrow> TextSpan list \<Rightarrow> TextSpan list" where
  "reorderSpans xdx w spans =
     (let lastIdx = length spans - 1;
          first = lastIdx - length (takeWhile (\<lambda>sp. reversed (tsDirection sp))
                                      (rev (butlast spans)))
      in if first < lastIdx then
           let space = xdx - tsX (spans ! first) - tsWidth (spans ! first);
               spans1 = spans[lastIdx := (spans ! lastIdx)\<lparr>tsX := tsX (spans ! (lastIdx - 1))\<rparr>]
           in map (\<lambda>n. if first \<le> n \<and> n < lastIdx
                         then (spans1 ! n)\<lparr>tsX := tsX (spans1 ! n) + w + space\<rparr>
                         else spans1 ! n) [0..<length spans1]
         else spans)"

text \<open>
  The body of \<^verbatim>\<open>if nextK != k || b == i+item.Size\<close> in a box: the span of the glyphs
  \<open>a\<close> up to \<open>b\<close> of run \<open>k\<close> is appended to line \<open>j\<close>; the glyphs of a
  right-to-left or bottom-to-top run are reversed back in place first. The result is the
  new state and the width of the span.
\<close>

definition emitSpan ::
  "environment \<Rightarrow> RichText \<Rightarrow> layout \<Rightarrow> real \<Rightarrow> int \<Rightarrow> int \<Rightarrow> int \<Rightarrow> assembly
    \<Rightarrow> error + (assembly \<times> real)" where
  "emitSpan env rt lo dx a b k st =
     andThen (elemAt (loFaces lo) k) (\<lambda>face0.
     andThen (elemAt (asGlyphs st) a) (\<lambda>ga.
     andThen (elemAt (asGlyphs st) b) (\<lambda>gb.
     andThen (sliceOf (asGlyphs st) a b) (\<lambda>gs.
     andThen (elemAt (tLines (asT st)) (int (asJ st))) (\<lambda>l.
     andThen
       (case face0 of
          Some f \<Rightarrow> Inr (faceTextWidth env f gs, face0, [],
                         insert (faceFont env f) (tFonts (asT st)))
        | None \<Rightarrow>
            andThen (spanObjects rt gs 0 []) (\<lambda>(w, objs).
              Inr (w, (if lineSpans l \<noteq> [] then tsFace (last (lineSpans l))
                       else defaultFace rt), objs, tFonts (asT st))))
       (\<lambda>(w, face, objs, fonts).
     andThen (elemAt (loDirections lo) k) (\<lambda>direction.
     andThen (elemAt (loRotations lo) k) (\<lambda>rotation.
       let glyphs' = (if reversed direction
                      then reverseRange (asGlyphs st) (nat a) (nat b) else asGlyphs st)
       in andThen (sliceOf (loLog lo) (uint (gCluster ga)) (uint (gCluster gb))) (\<lambda>s.
            let sp = \<lparr>tsX = asX st + dx, tsWidth = w, tsFace = face, tsText = s,
                      tsGlyphs = slice glyphs' (nat a) (nat b), tsDirection = direction,
                      tsRotation = rotation, tsObjects = objs\<rparr>;
                spans = lineSpans l @ [sp];
                spans' = (if reversed direction then reorderSpans (asX st + dx) w spans
                          else spans)
            in Inr (st\<lparr>asT := (updateLine (asJ st) (\<lambda>l. l\<lparr>lineSpans := spans'\<rparr>) (asT st))
                            \<lparr>tFonts := fonts\<rparr>,
                        asGlyphs := glyphs', asSpanEnd := b\<rparr>, w))))))))))"

text \<open>
  The loop \<^verbatim>\<open>for b := i + 1; b <= i+item.Size; b++\<close> of a box, with \<open>n\<close> passes left:
  the start \<open>a\<close> of the span, its run \<open>k\<close> and the offset \<open>dx\<close> in the box.
\<close>

fun boxLoop ::
  "environment \<Rightarrow> RichText \<Rightarrow> layout \<Rightarrow> int \<Rightarrow> nat \<Rightarrow> int \<Rightarrow> int \<Rightarrow> int \<Rightarrow> real \<Rightarrow> assembly
    \<Rightarrow> error + assembly" where
  "boxLoop env rt lo boxEnd 0 b a k dx st = Inr st"
| "boxLoop env rt lo boxEnd (Suc n) b a k dx st =
     (let nextK = indexer_index (loIndices lo) b
      in if nextK \<noteq> k \<or> b = boxEnd then
           andThen (emitSpan env rt lo dx a b k st) (\<lambda>(st', w).
             boxLoop env rt lo boxEnd n (b + 1) b nextK (dx + w) st')
         else boxLoop env rt lo boxEnd n (b + 1) a k dx st)"

definition assembleBox :: "environment \<Rightarrow> RichText \<Rightarrow> layout \<Rightarrow> Item \<Rightarrow> assembly \<Rightarrow> error + assembly" where
  "assembleBox env rt lo item st =
     andThen (boxLoop env rt lo (asI st + itSize item) (nat (itSize item)) (asI st + 1) (asI st)
                (indexer_index (loIndices lo) (asI st)) 0 st)
       (\<lambda>st'. Inr (st'\<lparr>asX := asX st' + itWidth item\<rparr>))"

text \<open>A glue: its width for the ratio of the line, and its text for the last span.\<close>

definition assembleGlue :: "environment \<Rightarrow> layout \<Rightarrow> Item \<Rightarrow> assembly \<Rightarrow> error + assembly" where
  "assembleGlue env lo item st =
     andThen (elemAt (loBreaks lo) (int (asJ st))) (\<lambda>br.
       let w = (if 0 \<le> bpRatio br then
                  (if \<not> envIsInf env (itStretch item)
                   then itWidth item + bpRatio br * itStretch item else itWidth item)
                else if \<not> envIsInf env (itShrink item)
                  then itWidth item + bpRatio br * itShrink item
                else itWidth item)
       in addSpaces item (st\<lparr>asX := asX st + w\<rparr>))"

text \<open>
  The loop \<^verbatim>\<open>for position, item := range items\<close> over the items that are left.
\<close>

fun assembleLoop ::
  "environment \<Rightarrow> RichText \<Rightarrow> layout \<Rightarrow> nat \<Rightarrow> Item list \<Rightarrow> assembly \<Rightarrow> error + assembly" where
  "assembleLoop env rt lo position [] st = Inr st"
| "assembleLoop env rt lo position (item # rest) st =
     andThen (elemAt (loBreaks lo) (int (asJ st))) (\<lambda>br.
       if int position = bpPosition br then
         andThen (atBreak env rt lo position item st) (\<lambda>(st', continue).
           if continue then
             assembleLoop env rt lo (position + 1) rest (st'\<lparr>asI := asI st' + itSize item\<rparr>)
           else Inr st')
       else if itType item = BoxType then
         andThen (assembleBox env rt lo item st) (\<lambda>st'.
           assembleLoop env rt lo (position + 1) rest (st'\<lparr>asI := asI st' + itSize item\<rparr>))
       else if itType item = GlueType then
         andThen (assembleGlue env lo item st) (\<lambda>st'.
           assembleLoop env rt lo (position + 1) rest (st'\<lparr>asI := asI st' + itSize item\<rparr>))
       else assembleLoop env rt lo (position + 1) rest (st\<lparr>asI := asI st + itSize item\<rparr>))"

section \<open>ToText\<close>

text \<open>
  After the loop: the line gap below the last line is taken off \<open>y\<close>, then the lines
  are aligned vertically, and mirrored for \<^verbatim>\<open>VerticalRL\<close>.
\<close>

definition trimLineGap :: "environment \<Rightarrow> RichText \<Rightarrow> layout \<Rightarrow> assembly \<Rightarrow> error + real" where
  "trimLineGap env rt lo st =
     (if 0 < asJ st then
        andThen (elemAt (tLines (asT st)) (int (asJ st) - 1)) (\<lambda>l.
        andThen (lineHeights env l (mode rt)) (\<lambda>(top, ascent, descent, bottom).
          Inr (asY st + (- bottom * loLineSpacing lo + descent))))
      else Inr (asY st))"

fun justifyLines :: "real \<Rightarrow> real \<Rightarrow> line list \<Rightarrow> line list" where
  "justifyLines ddy dy [] = []"
| "justifyLines ddy dy (l # ls) = l\<lparr>lineY := lineY l + dy\<rparr> # justifyLines ddy (dy + ddy) ls"

definition alignLines :: "WritingMode \<Rightarrow> TextAlign \<Rightarrow> real \<Rightarrow> real \<Rightarrow> line list \<Rightarrow> line list" where
  "alignLines m valign0 height y ls =
     (let valign = (if m = VerticalRL then
                      (if valign0 = Top then Bottom else if valign0 = Bottom then Top
                       else valign0)
                    else valign0);
          ls1 = (if valign = Center \<or> valign = Middle \<or> valign = Bottom then
                   (let dy = (if valign = Center \<or> valign = Middle then (height - y) / 2
                              else height - y)
                    in map (\<lambda>l. l\<lparr>lineY := lineY l + dy\<rparr>) ls)
                 else if valign = Justify then
                   justifyLines ((height - y) / (real_of_int (int (length ls) - 1))) 0 ls
                 else ls)
      in if m = VerticalRL then map (\<lambda>l. l\<lparr>lineY := height - lineY l\<rparr>) ls1 else ls1)"

text \<open>
  The box and the alignments as the layout uses them: swapped for the vertical modes.
\<close>

definition layoutBox ::
  "WritingMode \<Rightarrow> real \<Rightarrow> real \<Rightarrow> TextAlign \<Rightarrow> TextAlign \<Rightarrow> real \<times> real \<times> TextAlign \<times> TextAlign" where
  "layoutBox m width height halign valign =
     (if m \<noteq> HorizontalTB then
        (height, width,
         (if valign = Top then Left else if valign = Bottom then Right else valign),
         (if halign = Left then Top else if halign = Right then Bottom else halign))
      else (width, height, halign, valign))"

text \<open>
  \<^verbatim>\<open>ToText\<close> from the glyphs on: line breaking, the clean-up, the assembly of the lines
  and their vertical alignment.
\<close>

definition layoutLines ::
  "environment \<Rightarrow> RichText \<Rightarrow> runs \<Rightarrow> shaped \<Rightarrow> real \<Rightarrow> real \<Rightarrow> TextAlign \<Rightarrow> TextAlign \<Rightarrow> real
    \<Rightarrow> real \<Rightarrow> error + Text" where
  "layoutLines env rt rs sh width0 height0 halign0 valign0 indent lineStretch =
     (case layoutBox (mode rt) width0 height0 halign0 valign0 of
        (width, height, halign, valign) \<Rightarrow>
     (case lineBreaks (envLinebreak env) (envInfinity env)
             (envGlyphsToItems env (shGlyphs sh) indent
                (if halign = Justify then Justified else AlignLeft)) width of
        (breaks0, overflows) \<Rightarrow>
     andThen (cleanupItems
                (envGlyphsToItems env (shGlyphs sh) indent
                   (if halign = Justify then Justified else AlignLeft)) breaks0) (\<lambda>cu.
       let lo = \<lparr>loLog = Builder rt, loFaces = rnFaces rs, loIndices = shIndices sh,
                 loDirections = shDirections sh, loRotations = shRotations sh,
                 loBreaks = cuBreaks cu, loWidth = width, loHeight = height,
                 loHalign = halign, loLineSpacing = 1 + lineStretch,
                 loItems = length (cuItems cu)\<rparr>;
           t0 = \<lparr>tLines = [\<lparr>lineY = 0, lineSpans = []\<rparr>], tFonts = {}, tMode = mode rt,
                 tOrient = orient rt, tWidth = width, tHeight = height, tText = Builder rt,
                 Overflows = overflows\<rparr>;
           glyphs = shGlyphs sh @
             [\<lparr>gSFNT = None, gSize = 0, gScript = ScriptInvalid, gVertical = False, gID = 0,
               gCluster = of_nat (length (Builder rt)), gXAdvance = 0, gYAdvance = 0,
               gXOffset = 0, gYOffset = 0, gText = 0\<rparr>]
       in andThen (lineStart lo 0) (\<lambda>x.
          andThen (assembleLoop env rt lo 0 (cuItems cu)
                     \<lparr>asT = t0, asGlyphs = glyphs, asSpanEnd = 0, asI = 0, asJ = 0, asX = x,
                      asY = 0\<rparr>) (\<lambda>st.
          andThen (trimLineGap env rt lo st) (\<lambda>y.
            Inr ((asT st)\<lparr>tLines := alignLines (mode rt) valign height y
                                        (tLines (asT st))\<rparr>)))))))"

text \<open>
  \<^verbatim>\<open>ToText\<close> is a method on \<^verbatim>\<open>*RichText\<close>: the result is the receiver as the call
  leaves it, and the text. No statement of the method assigns to a field of the receiver
  or to an element of its slices; the objects of the table are copied into the spans.
\<close>

definition ToText ::
  "environment \<Rightarrow> RichText \<Rightarrow> real \<Rightarrow> real \<Rightarrow> TextAlign \<Rightarrow> TextAlign \<Rightarrow> real \<Rightarrow> real
    \<Rightarrow> error + (RichText \<times> Text)" where
  "ToText env rt width height halign valign indent lineStretch =
     andThen (itemizeFaces env rt (runes_of (Builder rt))
                (envEmbeddingLevels env (runes_of (Builder rt)))) (\<lambda>rs.
     andThen (shapeRuns env rt rs) (\<lambda>sh.
     andThen (layoutLines env rt rs sh width height halign valign indent lineStretch) (\<lambda>t.
       Inr (rt, t))))"

section \<open>Collaborators for the examples\<close>

text \<open>
  A shaper that returns one glyph for every rune, with the byte offset as cluster, in
  visual order (last rune first for a right-to-left or bottom-to-top direction), and an
  item builder that makes a box of width 10 of every glyph and ends with a forced break.
  Face 2 is right-to-left. Every face has the heights top 10, ascent 8, descent 2 and
  bottom 4.
\<close>

definition sampleShape :: "nat \<Rightarrow> byte list \<Rightarrow> Direction \<Rightarrow> Script \<Rightarrow> Glyph list \<times> Direction" where
  "sampleShape f txt direction script =
     (let gs = map (\<lambda>(off, r).
                 \<lparr>gSFNT = None, gSize = 0, gScript = ScriptInvalid, gVertical = False,
                  gID = ucast r, gCluster = of_nat off, gXAdvance = 10, gYAdvance = 0,
                  gXOffset = 0, gYOffset = 0, gText = r\<rparr>) (rangeString 0 txt)
      in if reversed direction then (rev gs, direction)
         else if direction = DirectionInvalid then (gs, LeftToRight)
         else (gs, direction))"

definition sampleGlyphsToItems :: "Glyph list \<Rightarrow> real \<Rightarrow> Align \<Rightarrow> Item list" where
  "sampleGlyphsToItems glyphs indent align =
     (if glyphs = [] then []
      else map (\<lambda>g. \<lparr>itType = BoxType, itWidth = 10, itStretch = 0, itShrink = 0,
                      itPenalty = 0, itSize = 1\<rparr>) glyphs
           @ [\<lparr>itType = PenaltyType, itWidth = 0, itStretch = 0, itShrink = 0,
                itPenalty = - 1000, itSize = 0\<rparr>])"

definition sampleEnv :: environment where
  "sampleEnv =
     \<lparr>envEmbeddingLevels = map (\<lambda>r. 0),
      envLookupScript = sampleLookupScript,
      envShape = sampleShape,
      envGlyphsToItems = sampleGlyphsToItems,
      envLinebreak = (\<lambda>items width looseness. ([], True)),
      envInfinity = 1000,
      envIsInf = (\<lambda>x. False),
      envInt32 = (\<lambda>x. word_of_int \<lfloor>x\<rfloor>),
      faceDirection = (\<lambda>f. if f = 2 then RightToLeft else LeftToRight),
      faceSize = (\<lambda>f. 12),
      faceFont = (\<lambda>f. f),
      faceSFNT = (\<lambda>f. f),
      faceHeights = (\<lambda>f m. (10, 8, 2, 4)),
      faceTextWidth = (\<lambda>f gs. 10 * real (length gs)),
      faceAscent = (\<lambda>f. 8),
      faceDescent = (\<lambda>f. 2),
      faceLineGap = (\<lambda>f. 2),
      faceMmPerEm = (\<lambda>f. 1),
      faceGlyphIndex = (\<lambda>f r. ucast r),
      faceGlyphAdvance = (\<lambda>f g. 10),
      sfntUnitsPerEm = (\<lambda>s. 1000),
      sfntDescender = (\<lambda>s. 0),
      sfntSxHeight = (\<lambda>s. 500),
      sfntGlyphAdvance = (\<lambda>s g. 10)\<rparr>"

section \<open>Properties of the rich text model\<close>



lemma encodeRune_not_Nil: "encodeRune r \<noteq> []"
  by (simp add: encodeRune_def)




lemma encodeRune_zero_iff: "encodeRune r = encodeRune 0 \<longleftrightarrow> r = 0"
proof
  assume a: "encodeRune r = encodeRune 0"
  have z: "encodeRune 0 = [0]" by (simp add: encodeRune_def)
  from a z have le: "r \<le> 0x7F" and u: "(ucast r :: byte) = 0"
    by (auto simp: encodeRune_def split: if_splits)
  from le have "unat r < 128" by (simp add: word_le_nat_alt)
  then have "unat (ucast r :: byte) = unat r"
    by (simp add: unsigned_ucast_eq take_bit_nat_eq_self)
  with u show "r = 0" by (simp add: unsigned_eq_0_iff)
qed simp

text \<open>
  What \<^verbatim>\<open>Reset\<close> keeps: it empties the string buffer, cuts the offset and face lists
  down to their first entry, and leaves the object table as it was. The next
  \<^verbatim>\<open>AddCanvas\<close> succeeds and writes, as the only content of the buffer, the UTF-8
  encoding of the rune \<^verbatim>\<open>rune(n)\<close> for \<open>n\<close> the number of objects before the reset;
  that is the encoding of rune 0 only when this rune is 0. The new object is appended
  after the old ones.
\<close>

theorem Reset_keeps_objects:
  assumes "Reset rt = Inr rt1"
  shows "Builder rt1 = [] \<and> locs rt1 = [hd (locs rt)] \<and> faces rt1 = [hd (faces rt)]
    \<and> objects rt1 = objects rt
    \<and> (\<exists>rt2. AddCanvas rt1 c valign = Inr rt2
          \<and> Builder rt2 = encodeRune (of_nat (length (objects rt)))
          \<and> objects rt2 = objects rt @
               [\<lparr>objCanvas = c, objX = 0, objY = 0, objWidth = canvasW c,
                 objHeight = canvasH c, objVAlign = valign\<rparr>]
          \<and> (Builder rt2 = encodeRune 0 \<longleftrightarrow> (of_nat (length (objects rt)) :: rune) = 0))"
proof -
  from assms have ne: "locs rt \<noteq> []" "faces rt \<noteq> []"
    and r1: "rt1 = rt\<lparr>Builder := [], locs := take 1 (locs rt), faces := take 1 (faces rt)\<rparr>"
    by (auto simp: Reset_def split: if_splits)
  from ne obtain l ls f fs where lf: "locs rt = l # ls" "faces rt = f # fs"
    by (cases "locs rt"; cases "faces rt") auto
  have a: "Builder rt1 = []" "locs rt1 = [l]" "faces rt1 = [f]" "objects rt1 = objects rt"
    using r1 lf by simp_all
  have "\<exists>rt2. AddCanvas rt1 c valign = Inr rt2
          \<and> Builder rt2 = encodeRune (of_nat (length (objects rt)))
          \<and> objects rt2 = objects rt @
               [\<lparr>objCanvas = c, objX = 0, objY = 0, objWidth = canvasW c,
                 objHeight = canvasH c, objVAlign = valign\<rparr>]"
    using a encodeRune_not_Nil [of "of_nat (length (objects rt))"]
    by (cases "f = None")
      (auto simp: AddCanvas_def setFace_def WriteRune_def Len_def Let_def
        runeCount_def runes_of_def)
  then show ?thesis using a lf encodeRune_zero_iff by auto
qed


theorem Reset_keeps_objects_witness:
  "Reset \<lparr>Builder = [0], locs = [0, 1], faces = [None, Some 1], mode = HorizontalTB,
       orient = Natural, defaultFace = Some 1,
       objects = [\<lparr>objCanvas = \<lparr>canvasId = 7, canvasW = 2, canvasH = 3\<rparr>, objX = 0,
         objY = 0, objWidth = 2, objHeight = 3, objVAlign = Baseline\<rparr>]\<rparr> =
     Inr \<lparr>Builder = [], locs = [0], faces = [None], mode = HorizontalTB,
       orient = Natural, defaultFace = Some 1,
       objects = [\<lparr>objCanvas = \<lparr>canvasId = 7, canvasW = 2, canvasH = 3\<rparr>, objX = 0,
         objY = 0, objWidth = 2, objHeight = 3, objVAlign = Baseline\<rparr>]\<rparr>
   \<and> (\<exists>rt2. AddCanvas \<lparr>Builder = [], locs = [0], faces = [None], mode = HorizontalTB,
         orient = Natural, defaultFace = Some 1,
         objects = [\<lparr>objCanvas = \<lparr>canvasId = 7, canvasW = 2, canvasH = 3\<rparr>, objX = 0,
           objY = 0, objWidth = 2, objHeight = 3, objVAlign = Baseline\<rparr>]\<rparr>
         \<lparr>canvasId = 8, canvasW = 4, canvasH = 5\<rparr> FontTop = Inr rt2
       \<and> Builder rt2 = [1]
       \<and> objects rt2 =
           [\<lparr>objCanvas = \<lparr>canvasId = 7, canvasW = 2, canvasH = 3\<rparr>, objX = 0,
              objY = 0, objWidth = 2, objHeight = 3, objVAlign = Baseline\<rparr>,
            \<lparr>objCanvas = \<lparr>canvasId = 8, canvasW = 4, canvasH = 5\<rparr>, objX = 0,
              objY = 0, objWidth = 4, objHeight = 5, objVAlign = FontTop\<rparr>])"
  using Reset_keeps_objects [where
      rt = "\<lparr>Builder = [0], locs = [0, 1], faces = [None, Some 1], mode = HorizontalTB,
       orient = Natural, defaultFace = Some 1,
       objects = [\<lparr>objCanvas = \<lparr>canvasId = 7, canvasW = 2, canvasH = 3\<rparr>, objX = 0,
         objY = 0, objWidth = 2, objHeight = 3, objVAlign = Baseline\<rparr>]\<rparr>"
      and ?rt1.0 = "\<lparr>Builder = [], locs = [0], faces = [None], mode = HorizontalTB,
       orient = Natural, defaultFace = Some 1,
       objects = [\<lparr>objCanvas = \<lparr>canvasId = 7, canvasW = 2, canvasH = 3\<rparr>, objX = 0,
         objY = 0, objWidth = 2, objHeight = 3, objVAlign = Baseline\<rparr>]\<rparr>"
      and c = "\<lparr>canvasId = 8, canvasW = 4, canvasH = 5\<rparr>" and valign = FontTop]
  by (auto simp add: Reset_def encodeRune_def)

text \<open>
  C10. The objects stay in the table and the next placeholder rune counts them
  (\<open>Reset_keeps_objects\<close>), but the entry that \<^verbatim>\<open>Reset\<close> keeps in the offset and face
  lists is the first one, which need not be the seed entry of \<^verbatim>\<open>NewRichText\<close>. After
  \<^verbatim>\<open>NewRichText(f1)\<close> and one \<^verbatim>\<open>AddCanvas\<close> on the empty buffer the first entry
  is the nil object marker, put there by \<^verbatim>\<open>setFace(nil)\<close> in place of the empty seed run;
  \<^verbatim>\<open>Reset\<close> leaves the faces \<open>[nil]\<close>, not the default face.
\<close>

theorem Reset_keeps_object_marker_not_seed:
  "NewRichText (Some 1) =
     Inr \<lparr>Builder = [], locs = [0], faces = [Some 1], mode = HorizontalTB,
          orient = Natural, defaultFace = Some 1, objects = []\<rparr>
   \<and> AddCanvas \<lparr>Builder = [], locs = [0], faces = [Some 1], mode = HorizontalTB,
          orient = Natural, defaultFace = Some 1, objects = []\<rparr>
        \<lparr>canvasId = 7, canvasW = 2, canvasH = 3\<rparr> Baseline =
     Inr \<lparr>Builder = [0], locs = [0, 1], faces = [None, Some 1], mode = HorizontalTB,
          orient = Natural, defaultFace = Some 1,
          objects = [\<lparr>objCanvas = \<lparr>canvasId = 7, canvasW = 2, canvasH = 3\<rparr>, objX = 0,
            objY = 0, objWidth = 2, objHeight = 3, objVAlign = Baseline\<rparr>]\<rparr>
   \<and> Reset \<lparr>Builder = [0], locs = [0, 1], faces = [None, Some 1], mode = HorizontalTB,
          orient = Natural, defaultFace = Some 1,
          objects = [\<lparr>objCanvas = \<lparr>canvasId = 7, canvasW = 2, canvasH = 3\<rparr>, objX = 0,
            objY = 0, objWidth = 2, objHeight = 3, objVAlign = Baseline\<rparr>]\<rparr> =
     Inr \<lparr>Builder = [], locs = [0], faces = [None], mode = HorizontalTB,
          orient = Natural, defaultFace = Some 1,
          objects = [\<lparr>objCanvas = \<lparr>canvasId = 7, canvasW = 2, canvasH = 3\<rparr>, objX = 0,
            objY = 0, objWidth = 2, objHeight = 3, objVAlign = Baseline\<rparr>]\<rparr>"
  by (simp add: NewRichText_def AddCanvas_def setFace_def WriteRune_def Reset_def
      encodeRune_def Len_def runeCount_def runes_of_def decodeRune_def Let_def)

text \<open>What \<^verbatim>\<open>SetFace\<close> does in each of its three cases.\<close>

lemma SetFace_active_face:
  "faces rt \<noteq> [] \<Longrightarrow> face = last (faces rt) \<Longrightarrow> face \<noteq> None \<Longrightarrow> SetFace rt face = Inr rt"
  by (simp add: SetFace_def setFace_def)

lemma SetFace_replaces_when_bytes_match:
  "faces rt \<noteq> [] \<Longrightarrow> locs rt \<noteq> [] \<Longrightarrow> face \<noteq> last (faces rt) \<Longrightarrow> face \<noteq> None \<Longrightarrow>
   Len rt = last (locs rt) \<Longrightarrow>
   SetFace rt face = Inr (rt\<lparr>locs := butlast (locs rt) @ [runeCount (Builder rt)],
                              faces := butlast (faces rt) @ [face]\<rparr>)"
  by (simp add: SetFace_def setFace_def Let_def)

lemma SetFace_appends_rune_offset:
  "faces rt \<noteq> [] \<Longrightarrow> locs rt \<noteq> [] \<Longrightarrow> face \<noteq> last (faces rt) \<Longrightarrow> face \<noteq> None \<Longrightarrow>
   Len rt \<noteq> last (locs rt) \<Longrightarrow>
   SetFace rt face = Inr (rt\<lparr>locs := locs rt @ [runeCount (Builder rt)],
                              faces := faces rt @ [face]\<rparr>)"
  by (simp add: SetFace_def setFace_def Let_def)

text \<open>
  C7. The empty-run test of \<^verbatim>\<open>setFace\<close> subtracts the last offset, a number of runes,
  from \<^verbatim>\<open>rt.Len()\<close>, a number of bytes. After the two-byte text U+00E9 and
  \<^verbatim>\<open>SetFace\<close> of a second face, the run of the second face is empty; \<^verbatim>\<open>SetFace\<close> of a
  third face keeps its entry and appends another one at the same offset 1.
\<close>

theorem SetFace_keeps_empty_run_after_two_byte_rune:
  "NewRichText (Some 1) =
     Inr \<lparr>Builder = [], locs = [0], faces = [Some 1], mode = HorizontalTB,
          orient = Natural, defaultFace = Some 1, objects = []\<rparr>
   \<and> SetFace (WriteString \<lparr>Builder = [], locs = [0], faces = [Some 1], mode = HorizontalTB,
          orient = Natural, defaultFace = Some 1, objects = []\<rparr> [0xC3, 0xA9]) (Some 2) =
     Inr \<lparr>Builder = [0xC3, 0xA9], locs = [0, 1], faces = [Some 1, Some 2],
          mode = HorizontalTB, orient = Natural, defaultFace = Some 1, objects = []\<rparr>
   \<and> SetFace \<lparr>Builder = [0xC3, 0xA9], locs = [0, 1], faces = [Some 1, Some 2],
          mode = HorizontalTB, orient = Natural, defaultFace = Some 1, objects = []\<rparr> (Some 3) =
     Inr \<lparr>Builder = [0xC3, 0xA9], locs = [0, 1, 1], faces = [Some 1, Some 2, Some 3],
          mode = HorizontalTB, orient = Natural, defaultFace = Some 1, objects = []\<rparr>"
  by (simp add: NewRichText_def SetFace_def setFace_def WriteString_def Len_def runeCount_def
      runes_of_def decodeRune_def firstByte_def Let_def)

text \<open>
  C3. The face-offset list does not always start at 0 and increase strictly.
  \<^verbatim>\<open>SetFaceSpan(face, 2, 4)\<close> on the six ASCII bytes \<^verbatim>\<open>abcdef\<close> with the single seed
  entry drops the entry of offset 0 (the list is cut at \<^verbatim>\<open>rt.locs[:i]\<close>, which leaves out
  the last entry before \<open>start\<close>) and leaves the offsets \<open>[2, 4]\<close>. And two \<^verbatim>\<open>SetFace\<close>
  calls after a two-byte rune leave the offsets \<open>[0, 1, 1]\<close>.
\<close>

theorem face_offsets_lose_seed_and_order:
  "SetFaceSpan (WriteString \<lparr>Builder = [], locs = [0], faces = [Some 1], mode = HorizontalTB,
          orient = Natural, defaultFace = Some 1, objects = []\<rparr>
        [0x61, 0x62, 0x63, 0x64, 0x65, 0x66]) (Some 2) 2 4 =
     Inr \<lparr>Builder = [0x61, 0x62, 0x63, 0x64, 0x65, 0x66], locs = [2, 4],
          faces = [Some 2, Some 1], mode = HorizontalTB, orient = Natural,
          defaultFace = Some 1, objects = []\<rparr>
   \<and> (case SetFace (WriteString \<lparr>Builder = [], locs = [0], faces = [Some 1],
            mode = HorizontalTB, orient = Natural, defaultFace = Some 1, objects = []\<rparr>
            [0xC3, 0xA9]) (Some 2) of
         Inl e \<Rightarrow> Inl e
       | Inr rt \<Rightarrow> map_sum id locs (SetFace rt (Some 3))) = Inr [0, 1, 1]"
  by (simp add: SetFaceSpan_def SetFace_def setFace_def WriteString_def Len_def runeCount_def
      runes_of_def decodeRune_def firstByte_def Let_def)

section \<open>Properties of the script itemizer\<close>

lemma take_slice: "i \<le> j \<Longrightarrow> take i xs @ slice xs i j = take j xs"
  by (metis slice_def le_add_diff_inverse take_add)

lemma string_of_runes_append:
  "string_of_runes (xs @ ys) = string_of_runes xs @ string_of_runes ys"
  by (simp add: string_of_runes_def)

lemma pushScript_ok:
  assumes "scripts \<noteq> []" "0 \<le> level"
  shows "\<exists>scripts' script'. pushScript scripts script level = Inr (scripts', script')
           \<and> scripts' \<noteq> []"
  using assms by (auto simp: pushScript_def)

lemma itemizeLoop_ok:
  assumes "scripts \<noteq> []" "i \<le> j" "j + length rest = length runes"
    "length runes \<le> length embeddingLevels" "\<forall>l \<in> set embeddingLevels. 0 \<le> l"
    "concat (map itemText items) = string_of_runes (take i runes)"
  shows "\<exists>i' items' scripts'.
      itemizeLoop LookupScript runes embeddingLevels j rest i items scripts
        = Inr (i', items', scripts')
      \<and> scripts' \<noteq> [] \<and> i' \<le> length runes
      \<and> concat (map itemText items') = string_of_runes (take i' runes)"
  using assms
proof (induction rest arbitrary: j i items scripts)
  case Nil
  then show ?case by simp
next
  case (Cons r rest)
  have jl: "j < length embeddingLevels" using Cons.prems by simp
  then have lv: "0 \<le> embeddingLevels ! j" using Cons.prems(5) by simp
  obtain scripts' script' where
    p: "pushScript scripts (LookupScript r) (embeddingLevels ! j) = Inr (scripts', script')"
    and ne: "scripts' \<noteq> []"
    using pushScript_ok [OF Cons.prems(1) lv] by blast
  have cut: "concat (map itemText (items @ [\<lparr>itemScript = last scripts,
      itemText = string_of_runes (slice runes i j)\<rparr>])) = string_of_runes (take j runes)"
    using Cons.prems(2,6) take_slice [of i j runes]
    by (simp add: string_of_runes_append [symmetric])
  have a: "\<exists>i' items' scripts''.
      itemizeLoop LookupScript runes embeddingLevels (j + 1) rest j
        (items @ [\<lparr>itemScript = last scripts,
                   itemText = string_of_runes (slice runes i j)\<rparr>]) scripts'
        = Inr (i', items', scripts'')
      \<and> scripts'' \<noteq> [] \<and> i' \<le> length runes
      \<and> concat (map itemText items') = string_of_runes (take i' runes)"
    by (rule Cons.IH) (use Cons.prems ne cut in auto)
  have b: "\<exists>i' items' scripts''.
      itemizeLoop LookupScript runes embeddingLevels (j + 1) rest i items scripts'
        = Inr (i', items', scripts'')
      \<and> scripts'' \<noteq> [] \<and> i' \<le> length runes
      \<and> concat (map itemText items') = string_of_runes (take i' runes)"
    by (rule Cons.IH) (use Cons.prems ne in auto)
  show ?case using a b p jl Cons.prems(1) by (simp add: Let_def)
qed

text \<open>
  C5 (as amended). \<^verbatim>\<open>ScriptItemizer\<close> is a function of its arguments and the script
  table. For runes with as many embedding levels, none of them negative, it returns items
  whose texts, concatenated in order, are the UTF-8 string of the runes; for no runes it
  returns no items.
\<close>

theorem ScriptItemizer_concat:
  assumes "length embeddingLevels = length runes" "\<forall>l \<in> set embeddingLevels. 0 \<le> l"
  shows "\<exists>items. ScriptItemizer LookupScript runes embeddingLevels = Inr items
           \<and> concat (map itemText items) = string_of_runes runes
           \<and> (runes = [] \<longrightarrow> items = [])"
proof (cases "runes = []")
  case True
  then show ?thesis by (simp add: ScriptItemizer_def string_of_runes_def)
next
  case False
  obtain i items scripts where
    l: "itemizeLoop LookupScript runes embeddingLevels 0 runes 0 [] [ScriptInherited]
          = Inr (i, items, scripts)"
    and s: "scripts \<noteq> []" "i \<le> length runes"
      "concat (map itemText items) = string_of_runes (take i runes)"
    using itemizeLoop_ok [of "[ScriptInherited]" 0 0 runes runes embeddingLevels "[]" LookupScript]
      assms by (auto simp: string_of_runes_def)
  have "string_of_runes (take i runes) @ string_of_runes (drop i runes) = string_of_runes runes"
    by (simp add: string_of_runes_append [symmetric])
  then show ?thesis using False l s by (simp add: ScriptItemizer_def)
qed

theorem ScriptItemizer_concat_witness:
  "length [0, 0, 1, 2 :: int] = length [0x61, 0x20, 0x4E00, 0xE9 :: rune]
   \<and> (\<exists>items. ScriptItemizer sampleLookupScript [0x61, 0x20, 0x4E00, 0xE9] [0, 0, 1, 2]
         = Inr items
       \<and> concat (map itemText items) = [0x61, 0x20, 0xE4, 0xB8, 0x80, 0xC3, 0xA9])"
  using ScriptItemizer_concat [of "[0, 0, 1, 2]" "[0x61, 0x20, 0x4E00, 0xE9]" sampleLookupScript]
  by (simp add: string_of_runes_def encodeRune_def)

text \<open>
  C5 as stated fails for a level slice of matching length that holds a negative level:
  \<^verbatim>\<open>scripts[level]\<close> is out of range and the call panics.
\<close>

theorem ScriptItemizer_negative_level:
  "length [- 1 :: int] = length [0x61 :: rune]
   \<and> ScriptItemizer sampleLookupScript [0x61] [- 1] = Inl IndexOutOfRange"
  by (simp add: ScriptItemizer_def pushScript_def Let_def)

section \<open>Breakpoints for a zero width\<close>

lemma zeroWidthLoop_acc:
  "zeroWidthLoop Infinity its i lw acc = acc @ zeroWidthLoop Infinity its i lw []"
proof (induction its arbitrary: i lw acc)
  case Nil
  then show ?case by simp
next
  case (Cons it its)
  show ?case
    using Cons.IH [of "i + 1" 0 "acc @ [\<lparr>bpPosition = int i, bpRatio = 0, bpWidth = lw\<rparr>]"]
      Cons.IH [of "i + 1" 0 "[\<lparr>bpPosition = int i, bpRatio = 0, bpWidth = lw\<rparr>]"]
      Cons.IH [of "i + 1" _ acc]
    by simp
qed

lemma filter_index_Cons:
  "filter (\<lambda>k. P ((x # xs) ! k)) [0..<length (x # xs)] =
     (if P x then [0] else []) @ map Suc (filter (\<lambda>k. P (xs ! k)) [0..<length xs])"
proof -
  have up: "[0..<length (x # xs)] = 0 # map Suc [0..<length xs]"
    by (simp add: upt_conv_Cons map_Suc_upt del: upt_Suc)
  show ?thesis unfolding up by (simp add: filter_map comp_def)
qed

lemma zeroWidthLoop_positions:
  "map bpPosition (zeroWidthLoop Infinity its i lw []) =
     map (\<lambda>k. int (i + k)) (filter (\<lambda>k. forcedBreak Infinity (its ! k)) [0..<length its])"
proof (induction its arbitrary: i lw)
  case Nil
  then show ?case by simp
next
  case (Cons it its)
  note acc = zeroWidthLoop_acc [of Infinity its "i + 1" 0
      "[\<lparr>bpPosition = int i, bpRatio = 0, bpWidth = lw\<rparr>]"]
  show ?case
  proof (cases "forcedBreak Infinity it")
    case True
    then show ?thesis
      unfolding filter_index_Cons using Cons.IH [of "i + 1" 0] acc
      by (simp add: forcedBreak_def comp_def)
  next
    case False
    then show ?thesis
      unfolding filter_index_Cons using Cons.IH [of "i + 1"]
      by (auto simp add: forcedBreak_def comp_def)
  qed
qed

lemma zeroWidthLoop_position_ge:
  assumes "n < length (zeroWidthLoop Infinity its i lw [])"
  shows "int i \<le> bpPosition (zeroWidthLoop Infinity its i lw [] ! n)"
proof -
  let ?bs = "zeroWidthLoop Infinity its i lw []"
  let ?ks = "filter (\<lambda>k. forcedBreak Infinity (its ! k)) [0..<length its]"
  have m: "map bpPosition ?bs = map (\<lambda>k. int (i + k)) ?ks"
    by (rule zeroWidthLoop_positions)
  then have "length ?bs = length ?ks" by (metis length_map)
  with assms have "n < length ?ks" by simp
  then have "map (\<lambda>k. int (i + k)) ?ks ! n = int (i + ?ks ! n)" by (rule nth_map)
  moreover have "map bpPosition ?bs ! n = bpPosition (?bs ! n)" using assms by (rule nth_map)
  ultimately show ?thesis using m by simp
qed

lemma widthBetween_Cons_Suc: "widthBetween (x # xs) (Suc a) (Suc b) = widthBetween xs a b"
  by (simp add: widthBetween_def slice_def)

lemma widthBetween_Cons_0:
  "widthBetween (x # xs) 0 (Suc b) =
     (if itType x \<noteq> PenaltyType then itWidth x else 0) + widthBetween xs 0 b"
  by (simp add: widthBetween_def slice_def)

lemma widthBetween_same: "widthBetween xs a a = 0"
  by (simp add: widthBetween_def slice_def)

lemma zeroWidthLoop_widths:
  assumes "n < length (zeroWidthLoop Infinity its i lw [])"
  shows "bpRatio (zeroWidthLoop Infinity its i lw [] ! n) = 0
    \<and> bpWidth (zeroWidthLoop Infinity its i lw [] ! n) =
        (if n = 0 then lw else 0) +
        widthBetween its
          (if n = 0 then 0
           else nat (bpPosition (zeroWidthLoop Infinity its i lw [] ! (n - 1))) + 1 - i)
          (nat (bpPosition (zeroWidthLoop Infinity its i lw [] ! n)) - i)"
  using assms
proof (induction its arbitrary: i lw n)
  case Nil
  then show ?case by simp
next
  case (Cons it its)
  note acc = zeroWidthLoop_acc [of Infinity its "i + 1" 0
      "[\<lparr>bpPosition = int i, bpRatio = 0, bpWidth = lw\<rparr>]"]
  have shift: "a - i = Suc (a - (i + 1))" if "i + 1 \<le> a" for a :: nat
    using that by simp
  show ?case
  proof (cases "forcedBreak Infinity it")
    case True
    let ?bs = "zeroWidthLoop Infinity its (i + 1) 0 []"
    have eq: "zeroWidthLoop Infinity (it # its) i lw [] =
        \<lparr>bpPosition = int i, bpRatio = 0, bpWidth = lw\<rparr> # ?bs"
      using True acc by (simp add: forcedBreak_def)
    show ?thesis
    proof (cases n)
      case 0
      then show ?thesis unfolding eq by (simp add: widthBetween_same)
    next
      case (Suc m)
      with Cons.prems eq have m: "m < length ?bs" by simp
      note ih = Cons.IH [OF m]
      have ge: "int (i + 1) \<le> bpPosition (?bs ! m)" by (rule zeroWidthLoop_position_ge [OF m])
      then have s1: "nat (bpPosition (?bs ! m)) - i = Suc (nat (bpPosition (?bs ! m)) - (i + 1))"
        by (intro shift) linarith
      show ?thesis
      proof (cases m)
        case 0
        with ih s1 Suc show ?thesis unfolding eq
          using widthBetween_Cons_Suc [of it its 0] by simp
      next
        case (Suc m')
        then have "m - 1 < length ?bs" using m by simp
        then have "int (i + 1) \<le> bpPosition (?bs ! (m - 1))"
          by (rule zeroWidthLoop_position_ge)
        then have s0: "nat (bpPosition (?bs ! (m - 1))) + 1 - i =
            Suc (nat (bpPosition (?bs ! (m - 1))) + 1 - (i + 1))"
          by (intro shift) linarith
        show ?thesis
          using ih s0 s1 Suc \<open>n = Suc m\<close> unfolding eq
          by (simp add: widthBetween_Cons_Suc)
      qed
    qed
  next
    case False
    define lw' where "lw' = (if itType it \<noteq> PenaltyType then lw + itWidth it else lw)"
    let ?bs = "zeroWidthLoop Infinity its (i + 1) lw' []"
    have eq: "zeroWidthLoop Infinity (it # its) i lw [] = ?bs"
      using False by (auto simp: forcedBreak_def lw'_def)
    from Cons.prems eq have n: "n < length ?bs" by simp
    note ih = Cons.IH [OF n]
    have ge: "int (i + 1) \<le> bpPosition (?bs ! n)" by (rule zeroWidthLoop_position_ge [OF n])
    then have s1: "nat (bpPosition (?bs ! n)) - i = Suc (nat (bpPosition (?bs ! n)) - (i + 1))"
      by (intro shift) linarith
    show ?thesis
    proof (cases n)
      case 0
      with ih s1 show ?thesis unfolding eq
        by (simp add: widthBetween_Cons_0 lw'_def)
    next
      case (Suc m)
      then have "n - 1 < length ?bs" using n by simp
      then have "int (i + 1) \<le> bpPosition (?bs ! (n - 1))"
        by (rule zeroWidthLoop_position_ge)
      then have s0: "nat (bpPosition (?bs ! (n - 1))) + 1 - i =
          Suc (nat (bpPosition (?bs ! (n - 1))) + 1 - (i + 1))"
        by (intro shift) linarith
      show ?thesis
        using ih s0 s1 Suc unfolding eq
        by (simp add: widthBetween_Cons_Suc)
    qed
  qed
qed

text \<open>
  C6. For a zero target width the breakpoints and the overflow flag do not depend on the
  line breaker. An empty item list gives the single breakpoint at position 0 of width 0. A
  nonempty one gives, in order, one breakpoint at the position of every forced break and
  nowhere else; each has ratio 0 and as width the sum of the widths of the items that are
  not penalties, from the item after the previous breakpoint (from the first item, for
  the first breakpoint) up to its own position.
\<close>

theorem zero_width_breaks:
  assumes "lineBreaks Linebreak Infinity items 0 = (breaks, overflows)"
  shows "lineBreaks Linebreak' Infinity items 0 = (breaks, overflows)
    \<and> (items = [] \<longrightarrow> breaks = [\<lparr>bpPosition = 0, bpRatio = 0, bpWidth = 0\<rparr>])
    \<and> (items \<noteq> [] \<longrightarrow>
          map bpPosition breaks =
            map int (filter (\<lambda>i. forcedBreak Infinity (items ! i)) [0..<length items])
        \<and> (\<forall>n < length breaks.
              bpRatio (breaks ! n) = 0
            \<and> bpWidth (breaks ! n) =
                widthBetween items
                  (if n = 0 then 0 else nat (bpPosition (breaks ! (n - 1))) + 1)
                  (nat (bpPosition (breaks ! n)))))"
proof (intro conjI impI allI)
  show "lineBreaks Linebreak' Infinity items 0 = (breaks, overflows)"
    using assms by (simp add: lineBreaks_def)
next
  assume "items = []"
  with assms show "breaks = [\<lparr>bpPosition = 0, bpRatio = 0, bpWidth = 0\<rparr>]"
    by (simp add: lineBreaks_def)
next
  assume "items \<noteq> []"
  with assms have b: "breaks = zeroWidthLoop Infinity items 0 0 []"
    by (simp add: lineBreaks_def)
  show "map bpPosition breaks =
      map int (filter (\<lambda>i. forcedBreak Infinity (items ! i)) [0..<length items])"
    unfolding b using zeroWidthLoop_positions [of Infinity items 0 0] by simp
  fix n
  assume "n < length breaks"
  then have n: "n < length (zeroWidthLoop Infinity items 0 0 [])" by (simp add: b)
  show "bpRatio (breaks ! n) = 0"
    unfolding b using zeroWidthLoop_widths [OF n] by simp
  show "bpWidth (breaks ! n) =
      widthBetween items (if n = 0 then 0 else nat (bpPosition (breaks ! (n - 1))) + 1)
        (nat (bpPosition (breaks ! n)))"
    unfolding b using zeroWidthLoop_widths [OF n] by simp
qed

theorem zero_width_breaks_witness:
  "lineBreaks (\<lambda>items width looseness. ([], True)) 1000 sampleItems 0 =
     ([\<lparr>bpPosition = 3, bpRatio = 0, bpWidth = 6\<rparr>,
       \<lparr>bpPosition = 7, bpRatio = 0, bpWidth = 5\<rparr>], False)
   \<and> lineBreaks (\<lambda>items width looseness. ([], False)) 1000 sampleItems 0 =
     ([\<lparr>bpPosition = 3, bpRatio = 0, bpWidth = 6\<rparr>,
       \<lparr>bpPosition = 7, bpRatio = 0, bpWidth = 5\<rparr>], False)
   \<and> filter (\<lambda>i. forcedBreak 1000 (sampleItems ! i)) [0..<length sampleItems] = [3, 7]
   \<and> widthBetween sampleItems 0 3 = 6 \<and> widthBetween sampleItems 4 7 = 5"
  using zero_width_breaks [of "\<lambda>items width looseness. ([], True)" 1000 sampleItems
      "[\<lparr>bpPosition = 3, bpRatio = 0, bpWidth = 6\<rparr>,
        \<lparr>bpPosition = 7, bpRatio = 0, bpWidth = 5\<rparr>]" False
      "\<lambda>items width looseness. ([], False)"]
  by (simp add: lineBreaks_def sampleItems_def widthBetween_def slice_def forcedBreak_def
      upt_conv_Cons)

section \<open>The clean-up keeps the total size\<close>

lemma totalSize_append: "totalSize (xs @ ys) = totalSize xs + totalSize ys"
  by (simp add: totalSize_def)

lemma totalSize_update:
  "n < length xs \<Longrightarrow> totalSize (xs[n := x]) = totalSize xs - itSize (xs ! n) + itSize x"
proof (induction xs arbitrary: n)
  case Nil
  then show ?case by simp
next
  case (Cons y ys)
  then show ?case by (cases n) (simp_all add: totalSize_def)
qed

lemma totalSize_removeAt:
  assumes "k < length xs"
  shows "totalSize (removeAt xs k) = totalSize xs - itSize (xs ! k)"
proof -
  have "xs = take k xs @ xs ! k # drop (k + 1) xs"
    using assms by (simp add: id_take_nth_drop)
  then have "totalSize xs = totalSize (take k xs) + itSize (xs ! k) + totalSize (drop (k + 1) xs)"
    by (metis totalSize_append totalSize_def list.simps(9) sum_list.Cons add.assoc)
  then show ?thesis by (simp add: removeAt_def totalSize_append)
qed

lemma totalSize_merge:
  assumes "k < length xs" "n < length xs" "n \<noteq> k"
    "itSize x = itSize (xs ! n) + itSize (xs ! k)"
  shows "totalSize (removeAt (xs[n := x]) k) = totalSize xs"
  using assms by (simp add: totalSize_removeAt totalSize_update)

lemma cleanupBranch_conds:
  "cleanupBranch s = LeadingGlue \<Longrightarrow> 0 < cuK s"
  "cleanupBranch s = TrailingGlue \<Longrightarrow> cuK s + 1 < length (cuItems s)"
  "cleanupBranch s = DropPenalty \<Longrightarrow> itSize (cuItems s ! cuK s) = 0"
  "cleanupBranch s = DropGlue \<Longrightarrow> itSize (cuItems s ! cuK s) = 0"
  "cleanupBranch s = MergeGlues \<Longrightarrow> 0 < cuK s"
  "cleanupBranch s = MergeBoxes \<Longrightarrow> 0 < cuK s"
  "cleanupBranch s = GlueIntoBox \<Longrightarrow> 0 < cuK s"
  by (simp_all add: cleanupBranch_def Let_def split: if_splits)

lemma cleanupBody_totalSize:
  assumes "cuK s < length (cuItems s)"
  shows "totalSize (cuItems (cleanupBody (cleanupBranch s) s)) = totalSize (cuItems s)"
proof (cases "cleanupBranch s")
  case KeepBreak
  then show ?thesis by simp
next
  case LeadingGlue
  with assms cleanupBranch_conds(1) [OF LeadingGlue] show ?thesis
    by (simp add: totalSize_merge)
next
  case TrailingGlue
  with assms cleanupBranch_conds(2) [OF TrailingGlue] show ?thesis
    by (simp add: totalSize_merge)
next
  case DropPenalty
  with assms cleanupBranch_conds(3) [OF DropPenalty] show ?thesis
    by (simp add: totalSize_removeAt)
next
  case DropGlue
  with assms cleanupBranch_conds(4) [OF DropGlue] show ?thesis
    by (simp add: totalSize_removeAt)
next
  case MergeGlues
  with assms cleanupBranch_conds(5) [OF MergeGlues] show ?thesis
    by (simp add: totalSize_merge)
next
  case MergeBoxes
  with assms cleanupBranch_conds(6) [OF MergeBoxes] show ?thesis
    by (simp add: totalSize_merge)
next
  case GlueIntoBox
  with assms cleanupBranch_conds(7) [OF GlueIntoBox] show ?thesis
    by (simp add: totalSize_merge)
next
  case NoChange
  then show ?thesis by simp
qed

lemma cleanupStep_totalSize:
  assumes "cuK s < length (cuItems s)" "cleanupStep s = Inr s'"
  shows "totalSize (cuItems s') = totalSize (cuItems s)"
proof -
  from assms(2) have "cuItems s' = cuItems (cleanupBody (cleanupBranch s) s)"
    by (auto simp: cleanupStep_def split: if_splits)
  then show ?thesis using cleanupBody_totalSize [OF assms(1)] by simp
qed

lemma cleanupLoop_totalSize:
  "cleanupLoop s = Inr s' \<Longrightarrow> totalSize (cuItems s') = totalSize (cuItems s)"
proof (induction s rule: cleanupLoop.induct)
  case (1 s)
  show ?case
  proof (cases "cuK s < length (cuItems s)")
    case True
    with "1.prems" obtain s1 where st: "cleanupStep s = Inr s1" and l: "cleanupLoop s1 = Inr s'"
      by (subst (asm) cleanupLoop.simps) (simp split: sum.splits)
    have "totalSize (cuItems s') = totalSize (cuItems s1)"
      using "1.IH" [OF True st l] .
    then show ?thesis using cleanupStep_totalSize [OF True st] by simp
  next
    case False
    with "1.prems" show ?thesis by (subst (asm) cleanupLoop.simps) simp
  qed
qed

lemma cleanupItems_totalSize:
  assumes "cleanupItems items breaks = Inr s"
  shows "totalSize (cuItems s) =
    totalSize items - (if items \<noteq> [] \<and> itWidth (items ! 0) = 0 then itSize (items ! 0) else 0)"
proof (cases "items \<noteq> [] \<and> itWidth (items ! 0) = 0")
  case True
  then obtain x xs where x: "items = x # xs" by (cases items) auto
  from assms True have "cleanupLoop \<lparr>cuItems = drop 1 items, cuBreaks = breaks, cuK = 0,
      cuJ = 0, cuShift = 1, cuI = 0\<rparr> = Inr s"
    by (simp add: cleanupItems_def)
  from cleanupLoop_totalSize [OF this]
  have "totalSize (cuItems s) = totalSize (drop 1 items)" by simp
  then show ?thesis using True x by (simp add: totalSize_def)
next
  case False
  with assms have "cleanupLoop \<lparr>cuItems = items, cuBreaks = breaks, cuK = 0,
      cuJ = 0, cuShift = 0, cuI = 0\<rparr> = Inr s"
    by (auto simp add: cleanupItems_def)
  from cleanupLoop_totalSize [OF this]
  have "totalSize (cuItems s) = totalSize items" by simp
  then show ?thesis using False by auto
qed

text \<open>
  C4 (as amended). When the clean-up pass of \<^verbatim>\<open>ToText\<close> runs to its end (it panics
  when it reads \<^verbatim>\<open>breaks[j]\<close> past the last breakpoint), and the first item is not an
  item of width zero with a nonzero size, the sizes of the items after the pass add up to
  the same total as before it.
\<close>

theorem cleanup_keeps_total_size:
  assumes "cleanupItems items breaks = Inr s"
    and "items = [] \<or> itWidth (items ! 0) \<noteq> 0 \<or> itSize (items ! 0) = 0"
  shows "totalSize (cuItems s) = totalSize items"
  using cleanupItems_totalSize [OF assms(1)] assms(2) by auto


theorem cleanup_keeps_total_size_witness:
  "cleanupItems sampleItems
     [\<lparr>bpPosition = 3, bpRatio = 0, bpWidth = 6\<rparr>, \<lparr>bpPosition = 7, bpRatio = 0, bpWidth = 5\<rparr>] =
   Inr \<lparr>cuItems =
         [\<lparr>itType = BoxType, itWidth = 6, itStretch = 0, itShrink = 0, itPenalty = 0, itSize = 3\<rparr>,
          \<lparr>itType = PenaltyType, itWidth = 0, itStretch = 0, itShrink = 0, itPenalty = - 1000,
            itSize = 1\<rparr>,
          \<lparr>itType = BoxType, itWidth = 4, itStretch = 0, itShrink = 0, itPenalty = 0, itSize = 1\<rparr>,
          \<lparr>itType = PenaltyType, itWidth = 0, itStretch = 0, itShrink = 0, itPenalty = - 1000,
            itSize = 1\<rparr>],
        cuBreaks = [\<lparr>bpPosition = 1, bpRatio = 0, bpWidth = 6\<rparr>,
                    \<lparr>bpPosition = 3, bpRatio = 0, bpWidth = 5\<rparr>],
        cuK = 4, cuJ = 2, cuShift = 4, cuI = 7\<rparr>
   \<and> itWidth (sampleItems ! 0) = 3
   \<and> totalSize
        [\<lparr>itType = BoxType, itWidth = 6, itStretch = 0, itShrink = 0, itPenalty = 0, itSize = 3\<rparr>,
         \<lparr>itType = PenaltyType, itWidth = 0, itStretch = 0, itShrink = 0, itPenalty = - 1000,
           itSize = 1\<rparr>,
         \<lparr>itType = BoxType, itWidth = 4, itStretch = 0, itShrink = 0, itPenalty = 0, itSize = 1\<rparr>,
         \<lparr>itType = PenaltyType, itWidth = 0, itStretch = 0, itShrink = 0, itPenalty = - 1000,
           itSize = 1\<rparr>] = 6
   \<and> totalSize sampleItems = 6"
  using cleanup_keeps_total_size [of sampleItems
      "[\<lparr>bpPosition = 3, bpRatio = 0, bpWidth = 6\<rparr>, \<lparr>bpPosition = 7, bpRatio = 0, bpWidth = 5\<rparr>]"]
  by (simp add: cleanupItems_def cleanupStep_def cleanupBranch_def removeAt_def sampleItems_def
      totalSize_def Let_def cleanupLoop.simps)

text \<open>
  C4 as stated fails: the pass removes a first item of width zero whatever its size, so a
  first box of width 0 and size 1 takes its glyph out of the total.
\<close>

theorem cleanup_drops_zero_width_first_item:
  "cleanupItems
     [\<lparr>itType = BoxType, itWidth = 0, itStretch = 0, itShrink = 0, itPenalty = 0, itSize = 1\<rparr>,
      \<lparr>itType = BoxType, itWidth = 5, itStretch = 0, itShrink = 0, itPenalty = 0, itSize = 1\<rparr>,
      \<lparr>itType = PenaltyType, itWidth = 0, itStretch = 0, itShrink = 0, itPenalty = - 1000,
        itSize = 0\<rparr>]
     [\<lparr>bpPosition = 2, bpRatio = 0, bpWidth = 5\<rparr>] =
   Inr \<lparr>cuItems =
         [\<lparr>itType = BoxType, itWidth = 5, itStretch = 0, itShrink = 0, itPenalty = 0, itSize = 1\<rparr>,
          \<lparr>itType = PenaltyType, itWidth = 0, itStretch = 0, itShrink = 0, itPenalty = - 1000,
            itSize = 0\<rparr>],
        cuBreaks = [\<lparr>bpPosition = 1, bpRatio = 0, bpWidth = 5\<rparr>],
        cuK = 2, cuJ = 1, cuShift = 1, cuI = 1\<rparr>
   \<and> totalSize
        [\<lparr>itType = BoxType, itWidth = 0, itStretch = 0, itShrink = 0, itPenalty = 0, itSize = 1\<rparr>,
         \<lparr>itType = BoxType, itWidth = 5, itStretch = 0, itShrink = 0, itPenalty = 0, itSize = 1\<rparr>,
         \<lparr>itType = PenaltyType, itWidth = 0, itStretch = 0, itShrink = 0, itPenalty = - 1000,
           itSize = 0\<rparr>] = 2
   \<and> totalSize
        [\<lparr>itType = BoxType, itWidth = 5, itStretch = 0, itShrink = 0, itPenalty = 0, itSize = 1\<rparr>,
         \<lparr>itType = PenaltyType, itWidth = 0, itStretch = 0, itShrink = 0, itPenalty = - 1000,
           itSize = 0\<rparr>] = 1"
  by (simp add: cleanupItems_def cleanupStep_def cleanupBranch_def removeAt_def
      totalSize_def Let_def cleanupLoop.simps)


section \<open>The overflow flag and the receiver of ToText\<close>

lemma andThen_Inr_iff: "andThen m f = Inr y \<longleftrightarrow> (\<exists>x. m = Inr x \<and> f x = Inr y)"
  by (cases m) (simp_all add: andThen_def)

lemma Overflows_updateLine [simp]: "Overflows (updateLine j f t) = Overflows t"
  by (simp add: updateLine_def)

lemma addSpaces_Overflows:
  "addSpaces item st = Inr st' \<Longrightarrow> Overflows (asT st') = Overflows (asT st)"
  by (auto simp: addSpaces_def andThen_Inr_iff split: if_splits)

lemma hyphenate_Overflows:
  "hyphenate env item st = Inr st' \<Longrightarrow> Overflows (asT st') = Overflows (asT st)"
  by (auto simp: hyphenate_def andThen_Inr_iff Let_def split: if_splits)

lemma andThenE:
  assumes "andThen m f = Inr y"
  obtains x where "m = Inr x" "f x = Inr y"
  using assms by (cases m) (simp_all add: andThen_def)

lemma emitSpan_Overflows:
  "emitSpan env rt lo dx a b k st = Inr (st', w) \<Longrightarrow> Overflows (asT st') = Overflows (asT st)"
  unfolding emitSpan_def
  by (auto elim!: andThenE simp: Let_def split: prod.splits)

lemma atBreak_Overflows:
  assumes "atBreak env rt lo position item st = Inr (st', c)"
  shows "Overflows (asT st') = Overflows (asT st)"
proof -
  from assms obtain st1 st2 where a: "addSpaces item st = Inr st1"
    and h: "hyphenate env item st1 = Inr st2"
    and r: "Overflows (asT st') = Overflows (asT st2)"
    unfolding atBreak_def
    by (auto elim!: andThenE simp: Let_def split: if_splits prod.splits)
  with addSpaces_Overflows [OF a] hyphenate_Overflows [OF h] show ?thesis by simp
qed

lemma boxLoop_Overflows:
  "boxLoop env rt lo boxEnd n b a k dx st = Inr st' \<Longrightarrow>
   Overflows (asT st') = Overflows (asT st)"
proof (induction n arbitrary: b a k dx st)
  case 0
  then show ?case by simp
next
  case (Suc n)
  show ?case
  proof (cases "indexer_index (loIndices lo) b \<noteq> k \<or> b = boxEnd")
    case True
    with Suc.prems obtain st1 w where e: "emitSpan env rt lo dx a b k st = Inr (st1, w)"
      and l: "boxLoop env rt lo boxEnd n (b + 1) b (indexer_index (loIndices lo) b) (dx + w) st1
                = Inr st'"
      by (auto elim!: andThenE simp: Let_def)
    from Suc.IH [OF l] emitSpan_Overflows [OF e] show ?thesis by simp
  next
    case False
    with Suc.prems have "boxLoop env rt lo boxEnd n (b + 1) a k dx st = Inr st'"
      by (auto simp: Let_def)
    from Suc.IH [OF this] show ?thesis .
  qed
qed

lemma assembleBox_Overflows:
  "assembleBox env rt lo item st = Inr st' \<Longrightarrow> Overflows (asT st') = Overflows (asT st)"
  by (auto simp: assembleBox_def elim!: andThenE dest: boxLoop_Overflows)

lemma assembleGlue_Overflows:
  "assembleGlue env lo item st = Inr st' \<Longrightarrow> Overflows (asT st') = Overflows (asT st)"
  by (auto simp: assembleGlue_def Let_def elim!: andThenE dest: addSpaces_Overflows)

lemma assembleLoop_Overflows:
  "assembleLoop env rt lo position items st = Inr st' \<Longrightarrow>
   Overflows (asT st') = Overflows (asT st)"
proof (induction items arbitrary: position st)
  case Nil
  then show ?case by simp
next
  case (Cons item rest)
  from Cons.prems obtain br where br: "elemAt (loBreaks lo) (int (asJ st)) = Inr br"
    by (auto elim!: andThenE)
  consider (brk) "int position = bpPosition br"
    | (box) "int position \<noteq> bpPosition br" "itType item = BoxType"
    | (glue) "int position \<noteq> bpPosition br" "itType item = GlueType"
    | (pen) "int position \<noteq> bpPosition br" "itType item = PenaltyType"
    by (cases "itType item") auto
  then show ?case
  proof cases
    case brk
    with Cons.prems br obtain st1 c where
      a: "atBreak env rt lo position item st = Inr (st1, c)"
      and l: "(if c then assembleLoop env rt lo (position + 1) rest
                 (st1\<lparr>asI := asI st1 + itSize item\<rparr>) else Inr st1) = Inr st'"
      by (auto elim!: andThenE)
    show ?thesis
    proof (cases c)
      case True
      with l have "assembleLoop env rt lo (position + 1) rest
          (st1\<lparr>asI := asI st1 + itSize item\<rparr>) = Inr st'" by simp
      from Cons.IH [OF this] atBreak_Overflows [OF a] show ?thesis by simp
    next
      case False
      with l atBreak_Overflows [OF a] show ?thesis by simp
    qed
  next
    case box
    with Cons.prems br obtain st1 where
      a: "assembleBox env rt lo item st = Inr st1"
      and l: "assembleLoop env rt lo (position + 1) rest
                (st1\<lparr>asI := asI st1 + itSize item\<rparr>) = Inr st'"
      by (auto elim!: andThenE)
    from Cons.IH [OF l] assembleBox_Overflows [OF a] show ?thesis by simp
  next
    case glue
    with Cons.prems br obtain st1 where
      a: "assembleGlue env lo item st = Inr st1"
      and l: "assembleLoop env rt lo (position + 1) rest
                (st1\<lparr>asI := asI st1 + itSize item\<rparr>) = Inr st'"
      by (auto elim!: andThenE)
    from Cons.IH [OF l] assembleGlue_Overflows [OF a] show ?thesis by simp
  next
    case pen
    with Cons.prems br have
      l: "assembleLoop env rt lo (position + 1) rest (st\<lparr>asI := asI st + itSize item\<rparr>) = Inr st'"
      by (auto elim!: andThenE)
    from Cons.IH [OF l] show ?thesis by simp
  qed
qed

lemma layoutLines_Overflows:
  assumes "layoutLines env rt rs sh width height halign valign indent lineStretch = Inr t"
  shows "Overflows t =
    snd (lineBreaks (envLinebreak env) (envInfinity env)
           (envGlyphsToItems env (shGlyphs sh) indent
              (if fst (snd (snd (layoutBox (mode rt) width height halign valign))) = Justify
               then Justified else AlignLeft))
           (fst (layoutBox (mode rt) width height halign valign)))"
  using assms
  by (auto simp: layoutLines_def Let_def elim!: andThenE split: prod.splits
      dest!: assembleLoop_Overflows)

text \<open>
  The overflow flag of the text is the one that line breaking gave: no statement of the
  assembly assigns to it. For a zero width in the horizontal mode it is never set.
\<close>

lemma ToText_flag_is_the_line_breakers:
  assumes "ToText env rt 0 height halign valign indent lineStretch = Inr (rt', t)"
    and "mode rt = HorizontalTB"
  shows "\<not> Overflows t"
proof -
  from assms(1) obtain rs sh where
    "layoutLines env rt rs sh 0 height halign valign indent lineStretch = Inr t"
    by (auto simp: ToText_def elim!: andThenE)
  from layoutLines_Overflows [OF this] assms(2) show ?thesis
    by (simp add: layoutBox_def lineBreaks_def)
qed


text \<open>
  C9. When \<^verbatim>\<open>ToText\<close> returns, the string buffer, the face offsets, the faces, the
  object table, the default face, the writing mode and the text orientation of the
  receiver are what they were before the call.
\<close>

theorem ToText_keeps_receiver:
  assumes "ToText env rt width height halign valign indent lineStretch = Inr (rt', t)"
  shows "Builder rt' = Builder rt \<and> locs rt' = locs rt \<and> faces rt' = faces rt
    \<and> objects rt' = objects rt \<and> defaultFace rt' = defaultFace rt \<and> mode rt' = mode rt
    \<and> orient rt' = orient rt"
  using assms by (auto simp: ToText_def elim!: andThenE)

theorem ToText_keeps_receiver_witness:
  "ToText sampleEnv
     \<lparr>Builder = [0x61], locs = [0], faces = [Some 1], mode = HorizontalTB,
      orient = Natural, defaultFace = Some 1, objects = []\<rparr> 0 0 Left Top 0 0 =
   Inr (\<lparr>Builder = [0x61], locs = [0], faces = [Some 1], mode = HorizontalTB,
         orient = Natural, defaultFace = Some 1, objects = []\<rparr>,
        \<lparr>tLines =
           [\<lparr>lineY = 8,
             lineSpans =
               [\<lparr>tsX = 0, tsWidth = 10, tsFace = Some 1, tsText = [0x61],
                 tsGlyphs =
                   [\<lparr>gSFNT = Some 1, gSize = 12, gScript = OtherScript 0,
                     gVertical = False, gID = 0x61, gCluster = 0, gXAdvance = 10,
                     gYAdvance = 0, gXOffset = 0, gYOffset = 0, gText = 0x61\<rparr>],
                 tsDirection = LeftToRight, tsRotation = NoRotation, tsObjects = []\<rparr>]\<rparr>],
         tFonts = {1}, tMode = HorizontalTB, tOrient = Natural, tWidth = 0, tHeight = 0,
         tText = [0x61], Overflows = False\<rparr>)
   \<and> Builder \<lparr>Builder = [0x61], locs = [0], faces = [Some (1::nat)], mode = HorizontalTB,
        orient = Natural, defaultFace = Some 1, objects = []\<rparr> = [0x61]"
proof -
  have e: "ToText sampleEnv
     \<lparr>Builder = [0x61], locs = [0], faces = [Some 1], mode = HorizontalTB,
      orient = Natural, defaultFace = Some 1, objects = []\<rparr> 0 0 Left Top 0 0 =
   Inr (\<lparr>Builder = [0x61], locs = [0], faces = [Some 1], mode = HorizontalTB,
         orient = Natural, defaultFace = Some 1, objects = []\<rparr>,
        \<lparr>tLines =
           [\<lparr>lineY = 8,
             lineSpans =
               [\<lparr>tsX = 0, tsWidth = 10, tsFace = Some 1, tsText = [0x61],
                 tsGlyphs =
                   [\<lparr>gSFNT = Some 1, gSize = 12, gScript = OtherScript 0,
                     gVertical = False, gID = 0x61, gCluster = 0, gXAdvance = 10,
                     gYAdvance = 0, gXOffset = 0, gYOffset = 0, gText = 0x61\<rparr>],
                 tsDirection = LeftToRight, tsRotation = NoRotation, tsObjects = []\<rparr>]\<rparr>],
         tFonts = {1}, tMode = HorizontalTB, tOrient = Natural, tWidth = 0, tHeight = 0,
         tText = [0x61], Overflows = False\<rparr>)"
    by code_simp
  from ToText_keeps_receiver [OF e] e show ?thesis by simp
qed

end
